theory Spec2Isabelle
  imports Main "HOL-Library.Word"
begin

section \<open>The GitHub client (github/github.go)\<close>

subsection \<open>Runners as the GitHub API lists them\<close>

text \<open>
  go-github's \<open>Runner\<close> holds pointers; the getters \<open>GetName\<close>, \<open>GetStatus\<close> and
  \<open>GetBusy\<close> return the zero value when the pointer is nil.
\<close>

record gh_runner =
  Name :: "string option"
  Status :: "string option"
  Busy :: "bool option"

definition GetName :: "gh_runner \<Rightarrow> string" where
  "GetName r = (case Name r of None \<Rightarrow> [] | Some s \<Rightarrow> s)"

definition GetStatus :: "gh_runner \<Rightarrow> string" where
  "GetStatus r = (case Status r of None \<Rightarrow> [] | Some s \<Rightarrow> s)"

definition GetBusy :: "gh_runner \<Rightarrow> bool" where
  "GetBusy r = (case Busy r of None \<Rightarrow> False | Some b \<Rightarrow> b)"

text \<open>
  The errors \<open>ListRunners\<close> can return, as far as its callers tell them apart with
  \<open>errors.As\<close>: a go-github \<open>RateLimitError\<close> (wrapped with \<open>%w\<close>, so still found), or
  anything else.
\<close>

datatype list_error = RateLimitError | ListFailure string

text \<open>
  The errors of \<open>IsRunnerBusy\<close>: its own \<open>RunnerNotFound\<close> and \<open>RunnerOffline\<close>, each
  carrying the runner name, or the error of \<open>ListRunners\<close> passed through.
\<close>

datatype probe_error = RunnerNotFound string | RunnerOffline string | ListError list_error

text \<open>
  The loop of \<open>IsRunnerBusy\<close> over the listed runners: the first runner with the queried
  name decides.
\<close>

fun find_runner :: "gh_runner list \<Rightarrow> string \<Rightarrow> bool \<times> probe_error option" where
  "find_runner [] name = (False, Some (RunnerNotFound name))"
| "find_runner (runner # runners) name =
     (if GetName runner = name then
        (if GetStatus runner = ''offline'' then (GetBusy runner, Some (RunnerOffline name))
         else (GetBusy runner, None))
      else find_runner runners name)"

text \<open>
  \<open>IsRunnerBusy\<close> takes the outcome of its \<open>ListRunners\<close> call as an argument: \<open>Inl\<close> the
  error, \<open>Inr\<close> the runners listed. It returns Go's pair \<open>(bool, error)\<close>.
\<close>

definition IsRunnerBusy :: "list_error + gh_runner list \<Rightarrow> string \<Rightarrow> bool \<times> probe_error option" where
  "IsRunnerBusy listed name =
     (case listed of
        Inl err \<Rightarrow> (False, Some (ListError err))
      | Inr runners \<Rightarrow> find_runner runners name)"

subsection \<open>The registration token cache\<close>

text \<open>
  Instants and durations are integers counting nanoseconds, as Go's \<open>time.Duration\<close>
  does; \<open>Minute\<close> is \<open>time.Minute\<close>.
\<close>

definition Minute :: int where
  "Minute = 60 * 1000000000"

text \<open>
  A registration token with the value \<open>GetExpiresAt\<close> returns for it.
\<close>

record registration_token =
  Token :: string
  ExpiresAt :: int

datatype token_error =
    InvalidTarget string
  | CreateFailed string
  | UnexpectedStatus int

text \<open>
  \<open>strings.Split\<close> on a one-character separator: \<open>n\<close> separators give \<open>n + 1\<close> pieces.
\<close>

fun Split :: "string \<Rightarrow> char \<Rightarrow> string list" where
  "Split [] sep = [[]]"
| "Split (c # cs) sep =
     (if c = sep then [] # Split cs sep
      else (case Split cs sep of [] \<Rightarrow> [[c]] | p # ps \<Rightarrow> (c # p) # ps))"

definition splitOwnerAndRepo :: "string \<Rightarrow> token_error + string \<times> string" where
  "splitOwnerAndRepo repo =
     (let chunk = Split repo (CHR ''/'')
      in if length chunk \<noteq> 2 then Inl (InvalidTarget repo)
         else Inr (chunk ! 0, chunk ! 1))"

definition getEnterpriseOrganizationAndRepo ::
  "string \<Rightarrow> string \<Rightarrow> string \<Rightarrow> token_error + string \<times> string \<times> string" where
  "getEnterpriseOrganizationAndRepo enterprise org repo =
     (if length repo > 0 then
        (case splitOwnerAndRepo repo of
           Inl err \<Rightarrow> Inl err
         | Inr (owner, repository) \<Rightarrow> Inr ([], owner, repository))
      else if length org > 0 then Inr ([], org, [])
      else if length enterprise > 0 then Inr (enterprise, [], [])
      else Inl (InvalidTarget []))"

definition getRegistrationKey :: "string \<Rightarrow> string \<Rightarrow> string \<Rightarrow> string" where
  "getRegistrationKey org repo enterprise =
     ''org='' @ org @ '',repo='' @ repo @ '',enterprise='' @ enterprise"

text \<open>
  What a call does to the client, in order: taking and releasing the mutex \<open>c.mu\<close>,
  reading, writing and sweeping the map \<open>c.regTokens\<close>, calling the GitHub API for a new
  token, and starting the goroutine that runs \<open>cleanup\<close>.
\<close>

datatype cache_event =
    Lock
  | Unlock
  | MapRead string
  | MapWrite string
  | MapSweep
  | CreateTokenCall string string string
  | GoCleanup

record token_call =
  returned :: "registration_token option"
  failure :: "token_error option"
  regTokens :: "string \<rightharpoonup> registration_token"
  events :: "cache_event list"

text \<open>
  \<open>GetRegistrationToken\<close>, on the map \<open>c.regTokens\<close>, the reading of \<open>time.Now()\<close> and
  the GitHub API: \<open>create enterprise owner repo\<close> is the outcome of
  \<open>c.createRegistrationToken\<close>, \<open>Inl\<close> its error, \<open>Inr\<close> the token and the HTTP status.
  The deferred \<open>Unlock\<close> is the last event of every path. The parameter \<open>name\<close> is not
  used by the source either.
\<close>

definition GetRegistrationToken ::
  "(string \<rightharpoonup> registration_token) \<Rightarrow> int \<Rightarrow>
   (string \<Rightarrow> string \<Rightarrow> string \<Rightarrow> string + registration_token \<times> int) \<Rightarrow>
   string \<Rightarrow> string \<Rightarrow> string \<Rightarrow> string \<Rightarrow> token_call" where
  "GetRegistrationToken tokens now create enterprise org repo name =
     (let key = getRegistrationKey org repo enterprise;
          rt = tokens key;
          runnerStartupTimeout = 30 * Minute
      in case (case rt of None \<Rightarrow> None
                | Some t \<Rightarrow> if ExpiresAt t > now + runnerStartupTimeout then Some t else None) of
           Some t \<Rightarrow>
             \<lparr>returned = Some t, failure = None, regTokens = tokens,
              events = [Lock, MapRead key, Unlock]\<rparr>
         | None \<Rightarrow>
             (case getEnterpriseOrganizationAndRepo enterprise org repo of
                Inl err \<Rightarrow>
                  \<lparr>returned = rt, failure = Some err, regTokens = tokens,
                   events = [Lock, MapRead key, Unlock]\<rparr>
              | Inr (enterprise', owner, repo') \<Rightarrow>
                  (case create enterprise' owner repo' of
                     Inl err \<Rightarrow>
                       \<lparr>returned = None, failure = Some (CreateFailed err), regTokens = tokens,
                        events = [Lock, MapRead key,
                                  CreateTokenCall enterprise' owner repo', Unlock]\<rparr>
                   | Inr (fresh, status) \<Rightarrow>
                       if status \<noteq> 201 then
                         \<lparr>returned = None, failure = Some (UnexpectedStatus status),
                          regTokens = tokens,
                          events = [Lock, MapRead key,
                                    CreateTokenCall enterprise' owner repo', Unlock]\<rparr>
                       else
                         \<lparr>returned = Some fresh, failure = None,
                          regTokens = tokens(key \<mapsto> fresh),
                          events = [Lock, MapRead key,
                                    CreateTokenCall enterprise' owner repo',
                                    MapWrite key, GoCleanup, Unlock]\<rparr>)))"

text \<open>
  \<open>cleanup\<close> ranges over the map and deletes every entry whose expiry is before the
  clock. \<open>keys\<close> are the keys in the order the \<open>range\<close> visits them, and the clock is
  read once per entry, so \<open>clock key\<close> is the reading taken at that key.
\<close>

fun cleanup_loop ::
  "(string \<Rightarrow> int) \<Rightarrow> string list \<Rightarrow> (string \<rightharpoonup> registration_token) \<Rightarrow>
   (string \<rightharpoonup> registration_token)" where
  "cleanup_loop clock [] tokens = tokens"
| "cleanup_loop clock (key # keys) tokens =
     (case tokens key of
        None \<Rightarrow> cleanup_loop clock keys tokens
      | Some rt \<Rightarrow>
          if ExpiresAt rt < clock key then cleanup_loop clock keys (tokens(key := None))
          else cleanup_loop clock keys tokens)"

definition cleanup ::
  "(string \<rightharpoonup> registration_token) \<Rightarrow> string list \<Rightarrow> (string \<Rightarrow> int) \<Rightarrow>
   (string \<rightharpoonup> registration_token) \<times> cache_event list" where
  "cleanup tokens keys clock = (cleanup_loop clock keys tokens, [Lock, MapSweep, Unlock])"

text \<open>
  The map once the goroutines a call of \<open>GetRegistrationToken\<close> started have run, with
  no other call in between: each \<open>GoCleanup\<close> among the events of the call is one run
  of \<open>cleanup\<close>.
\<close>

fun run_goroutines ::
  "cache_event list \<Rightarrow> string list \<Rightarrow> (string \<Rightarrow> int) \<Rightarrow>
   (string \<rightharpoonup> registration_token) \<Rightarrow> (string \<rightharpoonup> registration_token)" where
  "run_goroutines [] keys clock tokens = tokens"
| "run_goroutines (GoCleanup # es) keys clock tokens =
     run_goroutines es keys clock (fst (cleanup tokens keys clock))"
| "run_goroutines (e # es) keys clock tokens = run_goroutines es keys clock tokens"

text \<open>
  Whether a sequence of events keeps every access to the map between a \<open>Lock\<close> and the
  next \<open>Unlock\<close> of the one mutex; the flag says whether the mutex is held.
\<close>

fun guarded :: "bool \<Rightarrow> cache_event list \<Rightarrow> bool" where
  "guarded held [] = (\<not> held)"
| "guarded held (Lock # es) = (\<not> held \<and> guarded True es)"
| "guarded held (Unlock # es) = (held \<and> guarded False es)"
| "guarded held (MapRead k # es) = (held \<and> guarded held es)"
| "guarded held (MapWrite k # es) = (held \<and> guarded held es)"
| "guarded held (MapSweep # es) = (held \<and> guarded held es)"
| "guarded held (e # es) = guarded held es"

section \<open>The scale set listener\<close>

subsection \<open>Session creation\<close>

record session =
  SessionId :: string
  ScaleSetId :: int
  MessageQueueUrl :: string
  MessageQueueAccessToken :: string

text \<open>
  What \<open>createRunnerScaleSetSession\<close> did: the \<open>CreateMessageSession\<close> calls it made, the
  seconds it slept after each failure, and its result, \<open>Inl n\<close> being the error
  "Unable to create session in n attempts".
\<close>

record session_setup =
  attempts :: nat
  sleeps :: "nat list"
  created :: "int + session"

text \<open>
  The loop \<open>for i := 0; i < retries; i++\<close>, whose body also runs \<open>retries--\<close> after a
  failed attempt. \<open>create k\<close> is the outcome of the \<open>k\<close>-th call of \<open>CreateMessageSession\<close>
  (counted from 0): \<open>Inl\<close> an error, \<open>Inr\<close> the session.
\<close>

function session_loop ::
  "(nat \<Rightarrow> string + session) \<Rightarrow> int \<Rightarrow> int \<Rightarrow> nat \<Rightarrow> nat list \<Rightarrow> session_setup" where
  "session_loop create i retries n slept =
     (if i < retries then
        (case create n of
           Inr s \<Rightarrow> \<lparr>attempts = Suc n, sleeps = slept, created = Inr s\<rparr>
         | Inl err \<Rightarrow> session_loop create (i + 1) (retries - 1) (Suc n) (slept @ [30]))
      else \<lparr>attempts = n, sleeps = slept, created = Inl retries\<rparr>)"
  by pat_completeness auto
termination
  by (relation "measure (\<lambda>(create, i, retries, n, slept). nat (retries - i))") auto

declare session_loop.simps [simp del]

definition createRunnerScaleSetSession :: "(nat \<Rightarrow> string + session) \<Rightarrow> session_setup" where
  "createRunnerScaleSetSession create = session_loop create 0 3 0 []"

subsection \<open>The message loop\<close>

record message =
  MessageId :: int
  MessageType :: string
  Body :: string

text \<open>
  The errors of a poll, as \<open>runAndNotify\<close> tells them apart with \<open>errors.As\<close>.
\<close>

datatype queue_error = MessageQueueTokenExpiredError | QueueFailure string

record admin_connection =
  ActionsServiceUrl :: string
  AdminToken :: string

record actions_client =
  ActionsServiceURL :: string
  ActionsServiceAdminToken :: string

text \<open>
  The variables of \<open>runAndNotify\<close>. Its locals \<open>actionsAdminConnection\<close> and \<open>session\<close>
  are copies, taken on entry, of the pointers in the builder \<open>ml.b\<close>; the loop assigns
  to the local \<open>session\<close> and to the builder's \<open>actionsAdminConnection\<close>, so the two
  copies of each are kept apart. The local \<open>actionsServiceClient\<close> and
  \<open>ml.b.actionsServiceClient\<close> point to one object, which is \<open>client\<close>. A pointer that
  may be nil is an option.
\<close>

record loop_state =
  lastMessageId :: int
  local_session :: "session option"
  builder_session :: "session option"
  local_actionsAdminConnection :: "admin_connection option"
  builder_actionsAdminConnection :: "admin_connection option"
  client :: actions_client

text \<open>
  What the outside answers during one pass through the loop body: whether the context
  is done; the result of \<open>GetMessage\<close> for a queue URL, a queue token and a cursor; the
  error of \<open>DeleteMessage\<close>, if any, for a queue URL, a queue token and a message id; the
  pair returned by \<open>GetActionsServiceAdminConnection\<close>; and the pair returned by
  \<open>RefreshMessageSession\<close> for the client that makes the call, a scale set id and a
  session id.
\<close>

record iteration =
  ctx_done :: bool
  GetMessage :: "string \<Rightarrow> string \<Rightarrow> int \<Rightarrow> queue_error + message option"
  DeleteMessage :: "string \<Rightarrow> string \<Rightarrow> int \<Rightarrow> string option"
  GetActionsServiceAdminConnection :: "admin_connection option \<times> string option"
  RefreshMessageSession ::
    "actions_client \<Rightarrow> int \<Rightarrow> string \<Rightarrow> session option \<times> string option"

datatype handler =
    MaybeAcquireJob
  | HandleJobAssignment
  | NoopHandleJobCompletion
  | UnknownMessageType

definition handler_of :: "string \<Rightarrow> handler" where
  "handler_of t =
     (if t = ''RunnerScaleSetJobAvailable'' then MaybeAcquireJob
      else if t = ''RunnerScaleSetJobAssigned'' then HandleJobAssignment
      else if t = ''RunnerScaleSetJobCompleted'' then NoopHandleJobCompletion
      else UnknownMessageType)"

text \<open>
  The calls the loop makes, in order. \<open>Poll\<close> carries the queue URL, the queue token and
  the cursor sent; \<open>Refresh\<close> the admin token of the client making the call, the scale
  set id and the session id; \<open>Dispatch\<close> the handler, the message and the value of
  \<open>lastMessageId\<close> at the moment of the call.
\<close>

datatype action =
    Poll string string int
  | DeleteMessageCall int
  | AdminHandshake
  | Refresh string int string
  | Dispatch handler message int
  | LogError

datatype status = Running | Stopped | Panicked

text \<open>
  One pass through the body of the \<open>for\<close> loop. \<open>getMessage\<close> returns a nil message
  with every error, and deletes a message it received before returning it (the
  deferred \<open>deleteMessage\<close>, whose failure is only logged). Reading a field through a
  nil pointer panics.
\<close>

definition loop_body :: "loop_state \<Rightarrow> iteration \<Rightarrow> status \<times> loop_state \<times> action list" where
  "loop_body st it =
     (if ctx_done it then (Stopped, st, [])
      else case local_session st of
        None \<Rightarrow> (Panicked, st, [])
      | Some sess \<Rightarrow>
          (let poll = Poll (MessageQueueUrl sess) (MessageQueueAccessToken sess) (lastMessageId st)
           in case GetMessage it (MessageQueueUrl sess) (MessageQueueAccessToken sess)
                     (lastMessageId st) of
                Inl err \<Rightarrow>
                  (if err \<noteq> MessageQueueTokenExpiredError then (Running, st, [poll, LogError])
                   else case GetActionsServiceAdminConnection it of
                     (conn, Some e) \<Rightarrow>
                       (Running, st\<lparr>builder_actionsAdminConnection := conn\<rparr>,
                        [poll, AdminHandshake, LogError])
                   | (conn, None) \<Rightarrow>
                       (case local_actionsAdminConnection st of
                          None \<Rightarrow>
                            (Panicked, st\<lparr>builder_actionsAdminConnection := conn\<rparr>,
                             [poll, AdminHandshake])
                        | Some actionsAdminConnection \<Rightarrow>
                            (let c = (client st)\<lparr>ActionsServiceAdminToken :=
                                                    AdminToken actionsAdminConnection\<rparr>;
                                 call = Refresh (ActionsServiceAdminToken c) (ScaleSetId sess)
                                          (SessionId sess);
                                 st' = st\<lparr>builder_actionsAdminConnection := conn, client := c\<rparr>
                             in case RefreshMessageSession it c (ScaleSetId sess) (SessionId sess) of
                                  (sess', Some e) \<Rightarrow>
                                    (Running, st'\<lparr>local_session := sess'\<rparr>,
                                     [poll, AdminHandshake, call, LogError])
                                | (sess', None) \<Rightarrow>
                                    (Running, st'\<lparr>local_session := sess'\<rparr>,
                                     [poll, AdminHandshake, call]))))
              | Inr None \<Rightarrow> (Running, st, [poll])
              | Inr (Some msg) \<Rightarrow>
                  (let st' = st\<lparr>lastMessageId := MessageId msg\<rparr>
                   in (Running, st',
                       [poll, DeleteMessageCall (MessageId msg)] @
                       (case DeleteMessage it (MessageQueueUrl sess)
                               (MessageQueueAccessToken sess) (MessageId msg) of
                          Some e \<Rightarrow> [LogError]
                        | None \<Rightarrow> []) @
                       [Dispatch (handler_of (MessageType msg)) msg (lastMessageId st')]))))"


text \<open>The message ids handed to handlers, in the order of the calls.\<close>

fun dispatched :: "action list \<Rightarrow> int list" where
  "dispatched [] = []"
| "dispatched (Dispatch h msg cursor # acts) = MessageId msg # dispatched acts"
| "dispatched (a # acts) = dispatched acts"

section \<open>The runner replica set controller\<close>

text \<open>
  Errors of the Kubernetes client, as far as \<open>Reconcile\<close> tells them apart:
  \<open>client.IgnoreNotFound\<close> and \<open>kerrors.IsNotFound\<close> single out "not found".
\<close>

datatype client_error = NotFound | ClientFailure string

definition IgnoreNotFound :: "client_error option \<Rightarrow> client_error option" where
  "IgnoreNotFound err = (if err = Some NotFound then None else err)"

text \<open>
  A runner resource: its name, the UID of its controller owner reference if it has one,
  \<open>Status.Phase\<close> and the creation timestamp.
\<close>

record runner =
  RunnerName :: string
  ControllerUID :: "string option"
  Phase :: string
  CreationTimestamp :: int

text \<open>
  A runner replica set. \<open>Spec.Replicas\<close> is a \<open>*int\<close>: nil, or a 64-bit signed integer.
\<close>

record replica_set =
  UID :: string
  Replicas :: "64 word option"
  DeletionTimestamp :: "int option"
  AvailableReplicas :: int
  ReadyReplicas :: int

definition IsControlledBy :: "runner \<Rightarrow> replica_set \<Rightarrow> bool" where
  "IsControlledBy r rs = (ControllerUID r = Some (UID rs))"

text \<open>
  What the outside answers during one call of \<open>Reconcile\<close>: \<open>r.Get\<close> and \<open>r.List\<close>; for
  each runner the outcome of the \<open>ListRunners\<close> call behind its busy probe, the reading
  of \<open>time.Now()\<close> taken while handling it, and the outcome of \<open>r.Client.Delete\<close>; for
  the \<open>i\<close>-th pass of the scale-up loop the first error of \<open>newRunner\<close> and
  \<open>r.Client.Create\<close>; the outcome of the status update. The constant
  \<open>retryDelayOnGitHubAPIRateLimitError\<close> is declared in a file that is not part of the
  sources at hand, so it is a field too.
\<close>

record env =
  Get :: "client_error + replica_set"
  ListItems :: "client_error + runner list"
  ListRunners :: "runner \<Rightarrow> list_error + gh_runner list"
  Now :: "runner \<Rightarrow> int"
  Delete :: "runner \<Rightarrow> client_error option"
  Create :: "nat \<Rightarrow> client_error option"
  StatusUpdate :: "int \<times> int \<Rightarrow> client_error option"
  retryDelayOnGitHubAPIRateLimitError :: int

datatype reconcile_error = ProbeFailed probe_error | ClientFailed client_error

text \<open>
  What a call of \<open>Reconcile\<close> returns, \<open>ctrl.Result\<close>'s \<open>RequeueAfter\<close> and the error, and
  what it did: the runners whose \<open>Delete\<close> call did not fail, the number of runners
  created, and the available and ready counts written to the status, if any.
\<close>

record reconcile_result =
  RequeueAfter :: int
  error :: "reconcile_error option"
  deleted :: "runner list"
  created_count :: nat
  status_written :: "(int \<times> int) option"

text \<open>Arithmetic on Go's \<open>int\<close> wraps at 64 bits.\<close>

definition wrap64 :: "int \<Rightarrow> int" where
  "wrap64 x = signed_take_bit 63 x"

text \<open>
  The loop that collects \<open>notBusy\<close>. It returns \<open>Inl\<close> with the \<open>RequeueAfter\<close> and the
  error of the \<open>return\<close> statement that leaves \<open>Reconcile\<close> from inside the loop, or \<open>Inr\<close>
  the runners collected. \<open>errors.As\<close> is the case distinction on the error.
\<close>

fun notBusy_loop ::
  "env \<Rightarrow> runner list \<Rightarrow> runner list \<Rightarrow> int \<times> probe_error + runner list" where
  "notBusy_loop e [] notBusy = Inr notBusy"
| "notBusy_loop e (runner # rest) notBusy =
     (case IsRunnerBusy (ListRunners e runner) (RunnerName runner) of
        (busy, Some err) \<Rightarrow>
          (case err of
             ListError RateLimitError \<Rightarrow> Inl (retryDelayOnGitHubAPIRateLimitError e, err)
           | ListError (ListFailure x) \<Rightarrow> Inl (0, err)
           | RunnerNotFound nm \<Rightarrow>
               (let registrationTimeout = 15 * Minute;
                    currentTime = Now e runner;
                    registrationDidTimeout =
                      (currentTime - (CreationTimestamp runner + registrationTimeout) > 0)
                in notBusy_loop e rest
                     (if registrationDidTimeout then notBusy @ [runner] else notBusy))
           | RunnerOffline nm \<Rightarrow> notBusy_loop e rest (notBusy @ [runner]))
      | (busy, None) \<Rightarrow>
          notBusy_loop e rest (if \<not> busy then notBusy @ [runner] else notBusy))"

text \<open>
  The loop that deletes the first \<open>n\<close> runners of \<open>notBusy\<close>, given those runners: it
  stops at the first \<open>Delete\<close> whose error is not "not found".
\<close>

fun delete_loop :: "env \<Rightarrow> runner list \<Rightarrow> client_error option \<times> runner list" where
  "delete_loop e [] = (None, [])"
| "delete_loop e (r # rs) =
     (case IgnoreNotFound (Delete e r) of
        Some err \<Rightarrow> (Some err, [])
      | None \<Rightarrow> (case delete_loop e rs of (err, ds) \<Rightarrow> (err, r # ds)))"

text \<open>
  The scale-up loop from pass \<open>i\<close> with \<open>k\<close> passes to go; it returns the number of
  runners created.
\<close>

fun create_loop :: "env \<Rightarrow> nat \<Rightarrow> nat \<Rightarrow> client_error option \<times> nat" where
  "create_loop e i 0 = (None, 0)"
| "create_loop e i (Suc k) =
     (case Create e i of
        Some err \<Rightarrow> (Some err, 0)
      | None \<Rightarrow> (case create_loop e (Suc i) k of (err, c) \<Rightarrow> (err, Suc c)))"

text \<open>The end of \<open>Reconcile\<close>: the status is written only when a count has changed.\<close>

definition update_status ::
  "env \<Rightarrow> replica_set \<Rightarrow> int \<Rightarrow> int \<Rightarrow> runner list \<Rightarrow> nat \<Rightarrow> reconcile_result" where
  "update_status e rs available ready ds c =
     (if AvailableReplicas rs \<noteq> available \<or> ReadyReplicas rs \<noteq> ready then
        (case StatusUpdate e (available, ready) of
           Some err \<Rightarrow>
             \<lparr>RequeueAfter = 0, error = Some (ClientFailed err), deleted = ds,
              created_count = c, status_written = None\<rparr>
         | None \<Rightarrow>
             \<lparr>RequeueAfter = 0, error = None, deleted = ds,
              created_count = c, status_written = Some (available, ready)\<rparr>)
      else \<lparr>RequeueAfter = 0, error = None, deleted = ds,
            created_count = c, status_written = None\<rparr>)"

definition myRunners :: "replica_set \<Rightarrow> runner list \<Rightarrow> runner list" where
  "myRunners rs allRunners = filter (\<lambda>r. IsControlledBy r rs) allRunners"

definition desired :: "replica_set \<Rightarrow> int" where
  "desired rs = (case Replicas rs of Some d \<Rightarrow> sint d | None \<Rightarrow> 1)"

text \<open>
  \<open>Reconcile\<close> from the point where the replica set and the runners of the namespace
  are at hand. The counters \<open>available\<close> and \<open>ready\<close> count list elements one by one and
  stay far below \<open>2 ^ 63\<close>; the two differences are taken in Go's \<open>int\<close>. The event
  recorded after each deletion changes nothing that is returned and is left out.
\<close>

definition reconcile_runners :: "env \<Rightarrow> replica_set \<Rightarrow> runner list \<Rightarrow> reconcile_result" where
  "reconcile_runners e rs allRunners =
     (let mine = myRunners rs allRunners;
          available = int (length mine);
          ready = int (length (filter (\<lambda>r. Phase r = ''Running'') mine));
          want = desired rs
      in if available > want then
           (let n = wrap64 (available - want)
            in case notBusy_loop e mine [] of
                 Inl (delay, err) \<Rightarrow>
                   \<lparr>RequeueAfter = delay, error = Some (ProbeFailed err), deleted = [],
                    created_count = 0, status_written = None\<rparr>
               | Inr notBusy \<Rightarrow>
                   (let n' = (if int (length notBusy) < n then int (length notBusy) else n)
                    in case delete_loop e (take (nat n') notBusy) of
                         (Some err, ds) \<Rightarrow>
                           \<lparr>RequeueAfter = 0, error = Some (ClientFailed err), deleted = ds,
                            created_count = 0, status_written = None\<rparr>
                       | (None, ds) \<Rightarrow> update_status e rs available ready ds 0))
         else if want > available then
           (let n = wrap64 (want - available)
            in case create_loop e 0 (nat n) of
                 (Some err, c) \<Rightarrow>
                   \<lparr>RequeueAfter = 0, error = Some (ClientFailed err), deleted = [],
                    created_count = c, status_written = None\<rparr>
               | (None, c) \<Rightarrow> update_status e rs available ready [] c)
         else update_status e rs available ready [] 0)"

definition Reconcile :: "env \<Rightarrow> reconcile_result" where
  "Reconcile e =
     (case Get e of
        Inl err \<Rightarrow>
          \<lparr>RequeueAfter = 0, error = map_option ClientFailed (IgnoreNotFound (Some err)),
           deleted = [], created_count = 0, status_written = None\<rparr>
      | Inr rs \<Rightarrow>
          if DeletionTimestamp rs \<noteq> None then
            \<lparr>RequeueAfter = 0, error = None, deleted = [], created_count = 0,
             status_written = None\<rparr>
          else
            (case ListItems e of
               Inl err \<Rightarrow>
                 if err \<noteq> NotFound then
                   \<lparr>RequeueAfter = 0, error = Some (ClientFailed err), deleted = [],
                    created_count = 0, status_written = None\<rparr>
                 else reconcile_runners e rs []
             | Inr allRunners \<Rightarrow> reconcile_runners e rs allRunners))"

text \<open>
  The deletion candidates as the specification lists them, for comparison with what
  the loop collects: a runner whose probe succeeds and reports not busy, a runner
  classified offline, and a runner classified not registered whose age exceeds the
  registration timeout of 15 minutes.
\<close>

definition not_busy_candidate :: "env \<Rightarrow> runner \<Rightarrow> bool" where
  "not_busy_candidate e r =
     (case IsRunnerBusy (ListRunners e r) (RunnerName r) of
        (busy, None) \<Rightarrow> \<not> busy
      | (busy, Some (RunnerOffline nm)) \<Rightarrow> True
      | (busy, Some (RunnerNotFound nm)) \<Rightarrow> Now e r - CreationTimestamp r > 15 * Minute
      | (busy, Some (ListError err)) \<Rightarrow> False)"

section \<open>Properties\<close>

subsection \<open>The busy probe\<close>

lemma find_runner_absent:
  "\<forall>r \<in> set runners. GetName r \<noteq> name \<Longrightarrow>
   find_runner runners name = (False, Some (RunnerNotFound name))"
  by (induction runners) auto

lemma find_runner_first:
  "\<forall>r \<in> set before. GetName r \<noteq> name \<Longrightarrow> GetName runner = name \<Longrightarrow>
   find_runner (before @ runner # after) name =
     (GetBusy runner, if GetStatus runner = ''offline'' then Some (RunnerOffline name) else None)"
  by (induction before) auto

text \<open>
  C9. For every runner list the source returns, \<open>IsRunnerBusy\<close> answers
  \<open>(false, RunnerNotFound)\<close> when no listed runner has the queried name; when the first
  listed runner of that name has status "offline" it answers that runner's busy flag
  together with \<open>RunnerOffline\<close> (the flag is kept, not reset); and when that runner is
  not offline it answers the busy flag with a nil error.
\<close>

theorem IsRunnerBusy_by_listing:
  "((\<forall>r \<in> set runners. GetName r \<noteq> name) \<longrightarrow>
      IsRunnerBusy (Inr runners) name = (False, Some (RunnerNotFound name))) \<and>
   ((\<forall>r \<in> set before. GetName r \<noteq> name) \<and> GetName runner = name \<and>
      GetStatus runner = ''offline'' \<longrightarrow>
      IsRunnerBusy (Inr (before @ runner # after)) name =
        (GetBusy runner, Some (RunnerOffline name))) \<and>
   ((\<forall>r \<in> set before. GetName r \<noteq> name) \<and> GetName runner = name \<and>
      GetStatus runner \<noteq> ''offline'' \<longrightarrow>
      IsRunnerBusy (Inr (before @ runner # after)) name = (GetBusy runner, None))"
  by (simp add: IsRunnerBusy_def find_runner_absent find_runner_first)

theorem IsRunnerBusy_by_listing_witness:
  "IsRunnerBusy (Inr [\<lparr>Name = Some ''b'', Status = Some ''online'', Busy = Some True\<rparr>]) ''a''
     = (False, Some (RunnerNotFound ''a'')) \<and>
   IsRunnerBusy (Inr [\<lparr>Name = Some ''b'', Status = Some ''online'', Busy = Some True\<rparr>,
                      \<lparr>Name = Some ''a'', Status = Some ''offline'', Busy = Some True\<rparr>]) ''a''
     = (True, Some (RunnerOffline ''a'')) \<and>
   IsRunnerBusy (Inr [\<lparr>Name = Some ''b'', Status = Some ''online'', Busy = Some True\<rparr>,
                      \<lparr>Name = Some ''a'', Status = Some ''online'', Busy = Some True\<rparr>]) ''a''
     = (True, None)"
  using IsRunnerBusy_by_listing
          [of "[\<lparr>Name = Some ''b'', Status = Some ''online'', Busy = Some True\<rparr>]" "''a''"
              "[\<lparr>Name = Some ''b'', Status = Some ''online'', Busy = Some True\<rparr>]"
              "\<lparr>Name = Some ''a'', Status = Some ''offline'', Busy = Some True\<rparr>" "[]"]
        IsRunnerBusy_by_listing
          [of "[\<lparr>Name = Some ''b'', Status = Some ''online'', Busy = Some True\<rparr>]" "''a''"
              "[\<lparr>Name = Some ''b'', Status = Some ''online'', Busy = Some True\<rparr>]"
              "\<lparr>Name = Some ''a'', Status = Some ''online'', Busy = Some True\<rparr>" "[]"]
  by (simp add: GetName_def GetStatus_def GetBusy_def)

subsection \<open>Session creation\<close>

lemma session_loop_attempts:
  "attempts (session_loop create i retries n slept) \<le> n + nat ((retries - i + 1) div 2)"
proof (induction create i retries n slept rule: session_loop.induct)
  case (1 create i retries n slept)
  show ?case
  proof (cases "i < retries")
    case False
    then show ?thesis by (simp add: session_loop.simps [of create i retries])
  next
    case True
    show ?thesis
    proof (cases "create n")
      case (Inr s)
      with True show ?thesis by (simp add: session_loop.simps [of create i retries])
    next
      case (Inl err)
      from "1.IH" [OF True Inl]
      have "attempts (session_loop create (i + 1) (retries - 1) (Suc n) (slept @ [30]))
              \<le> Suc n + nat ((retries - 1 - (i + 1) + 1) div 2)" .
      moreover have "Suc n + nat ((retries - 1 - (i + 1) + 1) div 2)
                       \<le> n + nat ((retries - i + 1) div 2)"
        using True by simp
      ultimately show ?thesis
        using True Inl by (simp add: session_loop.simps [of create i retries])
    qed
  qed
qed

lemma createRunnerScaleSetSession_at_most_two:
  "attempts (createRunnerScaleSetSession create) \<le> 2"
  using session_loop_attempts [of create 0 3 0 "[]"]
  by (simp add: createRunnerScaleSetSession_def)

text \<open>
  C7. The claim is that session creation tries \<open>CreateMessageSession\<close> up to three
  times and reports the fatal error only after all three have failed. Evaluated where
  the first two calls fail and the third would succeed, the loop stops after the
  second call: it has slept twice, never makes the third call, and reports
  "Unable to create session in 1 attempts".
\<close>

theorem createRunnerScaleSetSession_stops_after_two:
  "createRunnerScaleSetSession
     (\<lambda>k. if k < 2 then Inl ''unavailable''
          else Inr \<lparr>SessionId = ''s'', ScaleSetId = 1, MessageQueueUrl = ''u'',
                    MessageQueueAccessToken = ''t''\<rparr>)
   = \<lparr>attempts = 2, sleeps = [30, 30], created = Inl 1\<rparr>"
  by (simp add: createRunnerScaleSetSession_def session_loop.simps)

subsection \<open>The registration token cache\<close>

lemma cleanup_loop_lookup:
  "cleanup_loop clock keys m k =
     (case m k of
        None \<Rightarrow> None
      | Some rt \<Rightarrow> if k \<in> set keys \<and> ExpiresAt rt < clock k then None else Some rt)"
  by (induction keys arbitrary: m) (auto split: option.splits)

lemma cleanup_lookup:
  "dom m \<subseteq> set keys \<Longrightarrow>
   fst (cleanup m keys clock) k =
     (case m k of None \<Rightarrow> None | Some rt \<Rightarrow> if ExpiresAt rt < clock k then None else Some rt)"
  by (auto simp: cleanup_def cleanup_loop_lookup split: option.splits)

lemma GetRegistrationToken_miss:
  "\<forall>t'. tokens (getRegistrationKey org repo enterprise) = Some t' \<longrightarrow>
         ExpiresAt t' \<le> now + 30 * Minute \<Longrightarrow>
   GetRegistrationToken tokens now create enterprise org repo name =
     (case getEnterpriseOrganizationAndRepo enterprise org repo of
        Inl err \<Rightarrow>
          \<lparr>returned = tokens (getRegistrationKey org repo enterprise), failure = Some err,
           regTokens = tokens,
           events = [Lock, MapRead (getRegistrationKey org repo enterprise), Unlock]\<rparr>
      | Inr (ent, owner, rp) \<Rightarrow>
          (case create ent owner rp of
             Inl msg \<Rightarrow>
               \<lparr>returned = None, failure = Some (CreateFailed msg), regTokens = tokens,
                events = [Lock, MapRead (getRegistrationKey org repo enterprise),
                          CreateTokenCall ent owner rp, Unlock]\<rparr>
           | Inr (fresh, status) \<Rightarrow>
               if status \<noteq> 201 then
                 \<lparr>returned = None, failure = Some (UnexpectedStatus status), regTokens = tokens,
                  events = [Lock, MapRead (getRegistrationKey org repo enterprise),
                            CreateTokenCall ent owner rp, Unlock]\<rparr>
               else
                 \<lparr>returned = Some fresh, failure = None,
                  regTokens = tokens(getRegistrationKey org repo enterprise \<mapsto> fresh),
                  events = [Lock, MapRead (getRegistrationKey org repo enterprise),
                            CreateTokenCall ent owner rp,
                            MapWrite (getRegistrationKey org repo enterprise), GoCleanup,
                            Unlock]\<rparr>))"
proof -
  assume "\<forall>t'. tokens (getRegistrationKey org repo enterprise) = Some t' \<longrightarrow>
         ExpiresAt t' \<le> now + 30 * Minute"
  then have "(case tokens (getRegistrationKey org repo enterprise) of None \<Rightarrow> None
                | Some t \<Rightarrow> if ExpiresAt t > now + 30 * Minute then Some t else None) = None"
    by (auto split: option.splits)
  then show ?thesis
    by (simp add: GetRegistrationToken_def Let_def)
qed

lemma GetRegistrationToken_hit:
  "tokens (getRegistrationKey org repo enterprise) = Some t \<Longrightarrow>
   ExpiresAt t > now + 30 * Minute \<Longrightarrow>
   GetRegistrationToken tokens now create enterprise org repo name =
     \<lparr>returned = Some t, failure = None, regTokens = tokens,
      events = [Lock, MapRead (getRegistrationKey org repo enterprise), Unlock]\<rparr>"
  by (simp add: GetRegistrationToken_def Let_def)

lemma GetRegistrationToken_guarded:
  "guarded False (events (GetRegistrationToken tokens now create enterprise org repo name))"
  by (simp add: GetRegistrationToken_def Let_def split: option.splits sum.splits prod.splits)

lemma GetRegistrationToken_no_failure:
  assumes "failure (GetRegistrationToken tokens now create enterprise org repo name) = None"
  shows "\<exists>t'. returned (GetRegistrationToken tokens now create enterprise org repo name) = Some t' \<and>
        ((tokens (getRegistrationKey org repo enterprise) = Some t' \<and>
          ExpiresAt t' > now + 30 * Minute \<and>
          regTokens (GetRegistrationToken tokens now create enterprise org repo name) = tokens) \<or>
         ((\<forall>t'. tokens (getRegistrationKey org repo enterprise) = Some t' \<longrightarrow>
                 ExpiresAt t' \<le> now + 30 * Minute) \<and>
          (\<exists>ent' owner' rp'.
             getEnterpriseOrganizationAndRepo enterprise org repo = Inr (ent', owner', rp') \<and>
             create ent' owner' rp' = Inr (t', 201)) \<and>
          regTokens (GetRegistrationToken tokens now create enterprise org repo name) =
            tokens(getRegistrationKey org repo enterprise \<mapsto> t')))"
proof (cases "\<exists>t. tokens (getRegistrationKey org repo enterprise) = Some t \<and>
                   ExpiresAt t > now + 30 * Minute")
  case True
  then obtain t where "tokens (getRegistrationKey org repo enterprise) = Some t"
    and "ExpiresAt t > now + 30 * Minute" by blast
  then show ?thesis
    using GetRegistrationToken_hit [of tokens org repo enterprise t now create name] by simp
next
  case False
  then have miss: "\<forall>t'. tokens (getRegistrationKey org repo enterprise) = Some t' \<longrightarrow>
         ExpiresAt t' \<le> now + 30 * Minute"
    by (meson not_le)
  from assms show ?thesis
    unfolding GetRegistrationToken_miss [of tokens org repo enterprise now create name, OF miss]
    using miss
    by (auto split: sum.splits prod.splits if_splits)
qed

text \<open>
  C8, as amended. A read of the registration token cache returns the stored token
  without an error only when its expiry lies more than the 30-minute runner start-up
  margin after the clock; then nothing is fetched, the map is unchanged and no cleanup
  is started. Otherwise (no entry, or an entry whose expiry is not beyond the margin,
  so every entry that has expired): when the target is valid and the API answers 201,
  the fresh token is returned and stored under the same key and the goroutine running
  \<open>cleanup\<close> is started; when the API call fails or answers another status, or the
  target is invalid, an error is returned, nothing is stored and no cleanup is started.
  Whenever no error is returned, the token returned is either the stored one with its
  expiry beyond the margin or the fresh one of a 201 answer. \<open>cleanup\<close>, ranging over
  all keys of the map, removes exactly the entries whose expiry is before the clock,
  and that is what the goroutine started after a write does to the map the write
  left. Both functions take the one mutex before their first access to the map and
  release it after the last.
\<close>

theorem GetRegistrationToken_cache:
  "(tokens (getRegistrationKey org repo enterprise) = Some t \<and> ExpiresAt t > now + 30 * Minute \<longrightarrow>
      (GetRegistrationToken tokens now create enterprise org repo name) =
        \<lparr>returned = Some t, failure = None, regTokens = tokens,
         events = [Lock, MapRead (getRegistrationKey org repo enterprise), Unlock]\<rparr>) \<and>
   ((\<forall>t'. tokens (getRegistrationKey org repo enterprise) = Some t' \<longrightarrow> ExpiresAt t' \<le> now + 30 * Minute) \<and>
    getEnterpriseOrganizationAndRepo enterprise org repo = Inr (ent, owner, rp) \<and>
    create ent owner rp = Inr (fresh, 201) \<longrightarrow>
      (GetRegistrationToken tokens now create enterprise org repo name) =
        \<lparr>returned = Some fresh, failure = None,
         regTokens = tokens((getRegistrationKey org repo enterprise) \<mapsto> fresh),
         events = [Lock, MapRead (getRegistrationKey org repo enterprise), CreateTokenCall ent owner rp,
                   MapWrite (getRegistrationKey org repo enterprise), GoCleanup, Unlock]\<rparr>) \<and>
   ((\<forall>t'. tokens (getRegistrationKey org repo enterprise) = Some t' \<longrightarrow> ExpiresAt t' \<le> now + 30 * Minute) \<and>
    getEnterpriseOrganizationAndRepo enterprise org repo = Inr (ent, owner, rp) \<and>
    create ent owner rp = Inl msg \<longrightarrow>
      (GetRegistrationToken tokens now create enterprise org repo name) =
        \<lparr>returned = None, failure = Some (CreateFailed msg), regTokens = tokens,
         events = [Lock, MapRead (getRegistrationKey org repo enterprise), CreateTokenCall ent owner rp, Unlock]\<rparr>) \<and>
   ((\<forall>t'. tokens (getRegistrationKey org repo enterprise) = Some t' \<longrightarrow> ExpiresAt t' \<le> now + 30 * Minute) \<and>
    getEnterpriseOrganizationAndRepo enterprise org repo = Inr (ent, owner, rp) \<and>
    create ent owner rp = Inr (fresh, status) \<and> status \<noteq> 201 \<longrightarrow>
      (GetRegistrationToken tokens now create enterprise org repo name) =
        \<lparr>returned = None, failure = Some (UnexpectedStatus status), regTokens = tokens,
         events = [Lock, MapRead (getRegistrationKey org repo enterprise), CreateTokenCall ent owner rp, Unlock]\<rparr>) \<and>
   ((\<forall>t'. tokens (getRegistrationKey org repo enterprise) = Some t' \<longrightarrow> ExpiresAt t' \<le> now + 30 * Minute) \<and>
    getEnterpriseOrganizationAndRepo enterprise org repo = Inl err \<longrightarrow>
      failure (GetRegistrationToken tokens now create enterprise org repo name) = Some err \<and>
      regTokens (GetRegistrationToken tokens now create enterprise org repo name) = tokens \<and>
      events (GetRegistrationToken tokens now create enterprise org repo name) = [Lock, MapRead (getRegistrationKey org repo enterprise), Unlock]) \<and>
   (failure (GetRegistrationToken tokens now create enterprise org repo name) = None \<longrightarrow>
      (\<exists>t'. returned (GetRegistrationToken tokens now create enterprise org repo name) = Some t' \<and>
        ((tokens (getRegistrationKey org repo enterprise) = Some t' \<and> ExpiresAt t' > now + 30 * Minute \<and>
          regTokens (GetRegistrationToken tokens now create enterprise org repo name) = tokens) \<or>
         ((\<forall>t'. tokens (getRegistrationKey org repo enterprise) = Some t' \<longrightarrow> ExpiresAt t' \<le> now + 30 * Minute) \<and>
          (\<exists>ent' owner' rp'.
             getEnterpriseOrganizationAndRepo enterprise org repo = Inr (ent', owner', rp') \<and>
             create ent' owner' rp' = Inr (t', 201)) \<and>
          regTokens (GetRegistrationToken tokens now create enterprise org repo name) = tokens((getRegistrationKey org repo enterprise) \<mapsto> t'))))) \<and>
   (dom tokens \<subseteq> set keys \<longrightarrow>
      fst (cleanup tokens keys clock) key =
        (case tokens key of None \<Rightarrow> None | Some rt \<Rightarrow> if ExpiresAt rt < clock key then None else Some rt)) \<and>
   ((\<forall>t'. tokens (getRegistrationKey org repo enterprise) = Some t' \<longrightarrow> ExpiresAt t' \<le> now + 30 * Minute) \<and>
    getEnterpriseOrganizationAndRepo enterprise org repo = Inr (ent, owner, rp) \<and>
    create ent owner rp = Inr (fresh, 201) \<and>
    insert (getRegistrationKey org repo enterprise) (dom tokens) \<subseteq> set keys \<longrightarrow>
      run_goroutines (events (GetRegistrationToken tokens now create enterprise org repo name)) keys clock (regTokens (GetRegistrationToken tokens now create enterprise org repo name)) key =
        (case (tokens((getRegistrationKey org repo enterprise) \<mapsto> fresh)) key of None \<Rightarrow> None | Some rt \<Rightarrow> if ExpiresAt rt < clock key then None else Some rt)) \<and>
   (tokens (getRegistrationKey org repo enterprise) = Some t \<and> ExpiresAt t > now + 30 * Minute \<longrightarrow>
      run_goroutines (events (GetRegistrationToken tokens now create enterprise org repo name)) keys clock (regTokens (GetRegistrationToken tokens now create enterprise org repo name)) = tokens) \<and>
   guarded False (events (GetRegistrationToken tokens now create enterprise org repo name)) \<and>
   guarded False (snd (cleanup tokens keys clock))"
proof -
  note miss = GetRegistrationToken_miss [of tokens org repo enterprise now create name]
  note hit = GetRegistrationToken_hit [of tokens org repo enterprise _ now create name]
  show ?thesis
  proof (intro conjI impI)
    show "guarded False (events (GetRegistrationToken tokens now create enterprise org repo name))"
      by (rule GetRegistrationToken_guarded)
  next
    show "guarded False (snd (cleanup tokens keys clock))"
      by (simp add: cleanup_def)
  next
    assume "failure (GetRegistrationToken tokens now create enterprise org repo name) = None"
    then show "\<exists>t'. returned (GetRegistrationToken tokens now create enterprise org repo name) = Some t' \<and>
        ((tokens (getRegistrationKey org repo enterprise) = Some t' \<and> ExpiresAt t' > now + 30 * Minute \<and>
          regTokens (GetRegistrationToken tokens now create enterprise org repo name) = tokens) \<or>
         ((\<forall>t'. tokens (getRegistrationKey org repo enterprise) = Some t' \<longrightarrow> ExpiresAt t' \<le> now + 30 * Minute) \<and>
          (\<exists>ent' owner' rp'.
             getEnterpriseOrganizationAndRepo enterprise org repo = Inr (ent', owner', rp') \<and>
             create ent' owner' rp' = Inr (t', 201)) \<and>
          regTokens (GetRegistrationToken tokens now create enterprise org repo name) = tokens((getRegistrationKey org repo enterprise) \<mapsto> t')))"
      by (rule GetRegistrationToken_no_failure)
  next
    assume "dom tokens \<subseteq> set keys"
    then show "fst (cleanup tokens keys clock) key = (case tokens key of None \<Rightarrow> None | Some rt \<Rightarrow> if ExpiresAt rt < clock key then None else Some rt)"
      by (rule cleanup_lookup)
  next
    assume a: "(\<forall>t'. tokens (getRegistrationKey org repo enterprise) = Some t' \<longrightarrow> ExpiresAt t' \<le> now + 30 * Minute) \<and>
      getEnterpriseOrganizationAndRepo enterprise org repo = Inr (ent, owner, rp) \<and>
      create ent owner rp = Inr (fresh, 201) \<and>
      insert (getRegistrationKey org repo enterprise) (dom tokens) \<subseteq> set keys"
    then have "dom (tokens((getRegistrationKey org repo enterprise) \<mapsto> fresh)) \<subseteq> set keys"
      by auto
    from cleanup_lookup [OF this, of clock key] a
    show "run_goroutines (events (GetRegistrationToken tokens now create enterprise org repo name)) keys clock (regTokens (GetRegistrationToken tokens now create enterprise org repo name)) key = (case (tokens((getRegistrationKey org repo enterprise) \<mapsto> fresh)) key of None \<Rightarrow> None | Some rt \<Rightarrow> if ExpiresAt rt < clock key then None else Some rt)"
      by (simp add: miss)
  qed (simp_all add: miss hit)
qed

theorem GetRegistrationToken_cache_witness:
  "returned (GetRegistrationToken
      [''org=o,repo=,enterprise='' \<mapsto> \<lparr>Token = ''kept'', ExpiresAt = 31 * Minute\<rparr>] 0
      (\<lambda>ent owner rp. Inr (\<lparr>Token = ''new'', ExpiresAt = 60 * Minute\<rparr>, 201))
      [] ''o'' [] ''runner'') = Some \<lparr>Token = ''kept'', ExpiresAt = 31 * Minute\<rparr> \<and>
   returned (GetRegistrationToken
      [''org=o,repo=,enterprise='' \<mapsto> \<lparr>Token = ''stale'', ExpiresAt = - 1\<rparr>] 0
      (\<lambda>ent owner rp. Inr (\<lparr>Token = ''new'', ExpiresAt = 60 * Minute\<rparr>, 201))
      [] ''o'' [] ''runner'') = Some \<lparr>Token = ''new'', ExpiresAt = 60 * Minute\<rparr> \<and>
   regTokens (GetRegistrationToken
      [''org=o,repo=,enterprise='' \<mapsto> \<lparr>Token = ''stale'', ExpiresAt = - 1\<rparr>] 0
      (\<lambda>ent owner rp. Inr (\<lparr>Token = ''new'', ExpiresAt = 60 * Minute\<rparr>, 201))
      [] ''o'' [] ''runner'') ''org=o,repo=,enterprise='' = Some \<lparr>Token = ''new'', ExpiresAt = 60 * Minute\<rparr> \<and>
   run_goroutines (events (GetRegistrationToken
      [''org=o,repo=,enterprise='' \<mapsto> \<lparr>Token = ''stale'', ExpiresAt = - 1\<rparr>] 0
      (\<lambda>ent owner rp. Inr (\<lparr>Token = ''new'', ExpiresAt = 60 * Minute\<rparr>, 201))
      [] ''o'' [] ''runner'')) [''org=o,repo=,enterprise=''] (\<lambda>k. 0)
     (regTokens (GetRegistrationToken
      [''org=o,repo=,enterprise='' \<mapsto> \<lparr>Token = ''stale'', ExpiresAt = - 1\<rparr>] 0
      (\<lambda>ent owner rp. Inr (\<lparr>Token = ''new'', ExpiresAt = 60 * Minute\<rparr>, 201))
      [] ''o'' [] ''runner'')) ''org=o,repo=,enterprise='' = Some \<lparr>Token = ''new'', ExpiresAt = 60 * Minute\<rparr> \<and>
   fst (cleanup [''org=o,repo=,enterprise='' \<mapsto> \<lparr>Token = ''stale'', ExpiresAt = - 1\<rparr>] [''org=o,repo=,enterprise=''] (\<lambda>k. 0)) ''org=o,repo=,enterprise='' = None \<and>
   returned (GetRegistrationToken
      [''org=o,repo=,enterprise='' \<mapsto> \<lparr>Token = ''stale'', ExpiresAt = - 1\<rparr>] 0
      (\<lambda>ent owner rp. Inl ''unavailable'')
      [] ''o'' [] ''runner'') = None \<and>
   failure (GetRegistrationToken
      [''org=o,repo=,enterprise='' \<mapsto> \<lparr>Token = ''stale'', ExpiresAt = - 1\<rparr>] 0
      (\<lambda>ent owner rp. Inl ''unavailable'')
      [] ''o'' [] ''runner'') = Some (CreateFailed ''unavailable'')"
proof -
  have key: "getRegistrationKey ''o'' [] [] = ''org=o,repo=,enterprise=''"
    by (simp add: getRegistrationKey_def)
  have target: "getEnterpriseOrganizationAndRepo [] ''o'' [] = Inr ([], ''o'', [])"
    by (simp add: getEnterpriseOrganizationAndRepo_def)
  have c1: "returned (GetRegistrationToken
      [''org=o,repo=,enterprise='' \<mapsto> \<lparr>Token = ''kept'', ExpiresAt = 31 * Minute\<rparr>] 0
      (\<lambda>ent owner rp. Inr (\<lparr>Token = ''new'', ExpiresAt = 60 * Minute\<rparr>, 201))
      [] ''o'' [] ''runner'') = Some \<lparr>Token = ''kept'', ExpiresAt = 31 * Minute\<rparr>"
    using GetRegistrationToken_cache
    [where tokens = "[''org=o,repo=,enterprise='' \<mapsto> \<lparr>Token = ''kept'', ExpiresAt = 31 * Minute\<rparr>]"
       and org = "''o''" and repo = "[]" and enterprise = "[]" and now = 0
       and create = "(\<lambda>ent owner rp. Inr (\<lparr>Token = ''new'', ExpiresAt = 60 * Minute\<rparr>, 201))"
       and name = "''runner''" and t = "\<lparr>Token = ''kept'', ExpiresAt = 31 * Minute\<rparr>"
       and ent = "[]" and owner = "''o''" and rp = "[]"
       and fresh = "\<lparr>Token = ''new'', ExpiresAt = 60 * Minute\<rparr>" and msg = "''unavailable''"
       and keys = "[''org=o,repo=,enterprise='']" and clock = "\<lambda>k. 0" and key = "''org=o,repo=,enterprise=''"]
          target
    by (simp add: key Minute_def cleanup_def)
  have c2: "returned (GetRegistrationToken
      [''org=o,repo=,enterprise='' \<mapsto> \<lparr>Token = ''stale'', ExpiresAt = - 1\<rparr>] 0
      (\<lambda>ent owner rp. Inr (\<lparr>Token = ''new'', ExpiresAt = 60 * Minute\<rparr>, 201))
      [] ''o'' [] ''runner'') = Some \<lparr>Token = ''new'', ExpiresAt = 60 * Minute\<rparr>"
    using GetRegistrationToken_cache
    [where tokens = "[''org=o,repo=,enterprise='' \<mapsto> \<lparr>Token = ''stale'', ExpiresAt = - 1\<rparr>]"
       and org = "''o''" and repo = "[]" and enterprise = "[]" and now = 0
       and create = "(\<lambda>ent owner rp. Inr (\<lparr>Token = ''new'', ExpiresAt = 60 * Minute\<rparr>, 201))"
       and name = "''runner''" and t = "\<lparr>Token = ''kept'', ExpiresAt = 31 * Minute\<rparr>"
       and ent = "[]" and owner = "''o''" and rp = "[]"
       and fresh = "\<lparr>Token = ''new'', ExpiresAt = 60 * Minute\<rparr>" and msg = "''unavailable''"
       and keys = "[''org=o,repo=,enterprise='']" and clock = "\<lambda>k. 0" and key = "''org=o,repo=,enterprise=''"]
          target
    by (simp add: key Minute_def cleanup_def)
  have c3: "regTokens (GetRegistrationToken
      [''org=o,repo=,enterprise='' \<mapsto> \<lparr>Token = ''stale'', ExpiresAt = - 1\<rparr>] 0
      (\<lambda>ent owner rp. Inr (\<lparr>Token = ''new'', ExpiresAt = 60 * Minute\<rparr>, 201))
      [] ''o'' [] ''runner'') ''org=o,repo=,enterprise='' = Some \<lparr>Token = ''new'', ExpiresAt = 60 * Minute\<rparr>"
    using GetRegistrationToken_cache
    [where tokens = "[''org=o,repo=,enterprise='' \<mapsto> \<lparr>Token = ''stale'', ExpiresAt = - 1\<rparr>]"
       and org = "''o''" and repo = "[]" and enterprise = "[]" and now = 0
       and create = "(\<lambda>ent owner rp. Inr (\<lparr>Token = ''new'', ExpiresAt = 60 * Minute\<rparr>, 201))"
       and name = "''runner''" and t = "\<lparr>Token = ''kept'', ExpiresAt = 31 * Minute\<rparr>"
       and ent = "[]" and owner = "''o''" and rp = "[]"
       and fresh = "\<lparr>Token = ''new'', ExpiresAt = 60 * Minute\<rparr>" and msg = "''unavailable''"
       and keys = "[''org=o,repo=,enterprise='']" and clock = "\<lambda>k. 0" and key = "''org=o,repo=,enterprise=''"]
          target
    by (simp add: key Minute_def cleanup_def)
  have c4: "run_goroutines (events (GetRegistrationToken
      [''org=o,repo=,enterprise='' \<mapsto> \<lparr>Token = ''stale'', ExpiresAt = - 1\<rparr>] 0
      (\<lambda>ent owner rp. Inr (\<lparr>Token = ''new'', ExpiresAt = 60 * Minute\<rparr>, 201))
      [] ''o'' [] ''runner'')) [''org=o,repo=,enterprise=''] (\<lambda>k. 0)
     (regTokens (GetRegistrationToken
      [''org=o,repo=,enterprise='' \<mapsto> \<lparr>Token = ''stale'', ExpiresAt = - 1\<rparr>] 0
      (\<lambda>ent owner rp. Inr (\<lparr>Token = ''new'', ExpiresAt = 60 * Minute\<rparr>, 201))
      [] ''o'' [] ''runner'')) ''org=o,repo=,enterprise='' = Some \<lparr>Token = ''new'', ExpiresAt = 60 * Minute\<rparr>"
    using GetRegistrationToken_cache
    [where tokens = "[''org=o,repo=,enterprise='' \<mapsto> \<lparr>Token = ''stale'', ExpiresAt = - 1\<rparr>]"
       and org = "''o''" and repo = "[]" and enterprise = "[]" and now = 0
       and create = "(\<lambda>ent owner rp. Inr (\<lparr>Token = ''new'', ExpiresAt = 60 * Minute\<rparr>, 201))"
       and name = "''runner''" and t = "\<lparr>Token = ''kept'', ExpiresAt = 31 * Minute\<rparr>"
       and ent = "[]" and owner = "''o''" and rp = "[]"
       and fresh = "\<lparr>Token = ''new'', ExpiresAt = 60 * Minute\<rparr>" and msg = "''unavailable''"
       and keys = "[''org=o,repo=,enterprise='']" and clock = "\<lambda>k. 0" and key = "''org=o,repo=,enterprise=''"]
          target
    by (simp add: key Minute_def cleanup_def)
  have c5: "fst (cleanup [''org=o,repo=,enterprise='' \<mapsto> \<lparr>Token = ''stale'', ExpiresAt = - 1\<rparr>] [''org=o,repo=,enterprise=''] (\<lambda>k. 0)) ''org=o,repo=,enterprise='' = None"
    using GetRegistrationToken_cache
    [where tokens = "[''org=o,repo=,enterprise='' \<mapsto> \<lparr>Token = ''stale'', ExpiresAt = - 1\<rparr>]"
       and org = "''o''" and repo = "[]" and enterprise = "[]" and now = 0
       and create = "(\<lambda>ent owner rp. Inr (\<lparr>Token = ''new'', ExpiresAt = 60 * Minute\<rparr>, 201))"
       and name = "''runner''" and t = "\<lparr>Token = ''kept'', ExpiresAt = 31 * Minute\<rparr>"
       and ent = "[]" and owner = "''o''" and rp = "[]"
       and fresh = "\<lparr>Token = ''new'', ExpiresAt = 60 * Minute\<rparr>" and msg = "''unavailable''"
       and keys = "[''org=o,repo=,enterprise='']" and clock = "\<lambda>k. 0" and key = "''org=o,repo=,enterprise=''"]
          target
    by (simp add: key Minute_def cleanup_def)
  have c6: "returned (GetRegistrationToken
      [''org=o,repo=,enterprise='' \<mapsto> \<lparr>Token = ''stale'', ExpiresAt = - 1\<rparr>] 0
      (\<lambda>ent owner rp. Inl ''unavailable'')
      [] ''o'' [] ''runner'') = None"
    using GetRegistrationToken_cache
    [where tokens = "[''org=o,repo=,enterprise='' \<mapsto> \<lparr>Token = ''stale'', ExpiresAt = - 1\<rparr>]"
       and org = "''o''" and repo = "[]" and enterprise = "[]" and now = 0
       and create = "(\<lambda>ent owner rp. Inl ''unavailable'')"
       and name = "''runner''" and t = "\<lparr>Token = ''kept'', ExpiresAt = 31 * Minute\<rparr>"
       and ent = "[]" and owner = "''o''" and rp = "[]"
       and fresh = "\<lparr>Token = ''new'', ExpiresAt = 60 * Minute\<rparr>" and msg = "''unavailable''"
       and keys = "[''org=o,repo=,enterprise='']" and clock = "\<lambda>k. 0" and key = "''org=o,repo=,enterprise=''"]
          target
    by (simp add: key Minute_def cleanup_def)
  have c7: "failure (GetRegistrationToken
      [''org=o,repo=,enterprise='' \<mapsto> \<lparr>Token = ''stale'', ExpiresAt = - 1\<rparr>] 0
      (\<lambda>ent owner rp. Inl ''unavailable'')
      [] ''o'' [] ''runner'') = Some (CreateFailed ''unavailable'')"
    using GetRegistrationToken_cache
    [where tokens = "[''org=o,repo=,enterprise='' \<mapsto> \<lparr>Token = ''stale'', ExpiresAt = - 1\<rparr>]"
       and org = "''o''" and repo = "[]" and enterprise = "[]" and now = 0
       and create = "(\<lambda>ent owner rp. Inl ''unavailable'')"
       and name = "''runner''" and t = "\<lparr>Token = ''kept'', ExpiresAt = 31 * Minute\<rparr>"
       and ent = "[]" and owner = "''o''" and rp = "[]"
       and fresh = "\<lparr>Token = ''new'', ExpiresAt = 60 * Minute\<rparr>" and msg = "''unavailable''"
       and keys = "[''org=o,repo=,enterprise='']" and clock = "\<lambda>k. 0" and key = "''org=o,repo=,enterprise=''"]
          target
    by (simp add: key Minute_def cleanup_def)
  from c1 c2 c3 c4 c5 c6 c7 show ?thesis
    by (intro conjI)
qed

text \<open>
  The claim as it was stated says that every read which does not find a valid entry
  fetches a fresh token and stores it, and that a stored token is returned only when
  its expiry is beyond the margin. Where the entry has expired and the API call fails,
  no token is returned and the expired entry stays in the map. And where a token was
  stored at time 0 for the organization \<open>o\<close> with the enterprise \<open>,enterprise=\<close>, a read
  at time 20 for the organization \<open>o\<close> with the repository \<open>,enterprise=\<close> has the same
  key and an invalid target: it returns the stored token, expired since time 10,
  together with the error.
\<close>

theorem expired_entry_survives_failed_fetch:
  "returned (GetRegistrationToken
      [''org=o,repo=,enterprise='' \<mapsto> \<lparr>Token = ''stale'', ExpiresAt = - 1\<rparr>] 0
      (\<lambda>ent owner rp. Inl ''unavailable'')
      [] ''o'' [] ''runner'') = None \<and>
   regTokens (GetRegistrationToken
      [''org=o,repo=,enterprise='' \<mapsto> \<lparr>Token = ''stale'', ExpiresAt = - 1\<rparr>] 0
      (\<lambda>ent owner rp. Inl ''unavailable'')
      [] ''o'' [] ''runner'') ''org=o,repo=,enterprise='' = Some \<lparr>Token = ''stale'', ExpiresAt = - 1\<rparr> \<and>
   returned (GetRegistrationToken
      (regTokens (GetRegistrationToken Map.empty 0
         (\<lambda>ent owner rp. Inr (\<lparr>Token = ''first'', ExpiresAt = 10\<rparr>, 201))
         '',enterprise='' ''o'' [] ''runner''))
      20
      (\<lambda>ent owner rp. Inr (\<lparr>Token = ''second'', ExpiresAt = 60 * Minute\<rparr>, 201))
      [] ''o'' '',enterprise='' ''runner'')
     = Some \<lparr>Token = ''first'', ExpiresAt = 10\<rparr> \<and>
   failure (GetRegistrationToken
      (regTokens (GetRegistrationToken Map.empty 0
         (\<lambda>ent owner rp. Inr (\<lparr>Token = ''first'', ExpiresAt = 10\<rparr>, 201))
         '',enterprise='' ''o'' [] ''runner''))
      20
      (\<lambda>ent owner rp. Inr (\<lparr>Token = ''second'', ExpiresAt = 60 * Minute\<rparr>, 201))
      [] ''o'' '',enterprise='' ''runner'')
     = Some (InvalidTarget '',enterprise='')"
  by (simp add: GetRegistrationToken_def getRegistrationKey_def
        getEnterpriseOrganizationAndRepo_def splitOwnerAndRepo_def Minute_def Let_def)

subsection \<open>The message loop\<close>

text \<open>
  C5. For every error a poll returns, the loop runs the session refresh if and only if
  the error is the token-expired error: the admin handshake is issued exactly then, and
  \<open>RefreshMessageSession\<close> is called exactly when the error is token-expired and the
  handshake succeeded, for the scale set id and the session id of the current session;
  the session is then replaced by the one that call returns. When the handshake fails
  the session and the client are as before. Every other error is logged and the loop
  goes on to the next poll with all of its state, the cursor included, unchanged. In no
  case is the cursor moved or a message dispatched, and the loop keeps running.
\<close>

theorem poll_error_refresh_iff:
  "\<not> ctx_done it \<and> local_session st = Some sess \<and>
   local_actionsAdminConnection st = Some conn \<and>
   GetMessage it (MessageQueueUrl sess) (MessageQueueAccessToken sess) (lastMessageId st) = Inl err \<longrightarrow>
     (case loop_body st it of
        (r, st', acts) \<Rightarrow>
          r = Running \<and>
          lastMessageId st' = lastMessageId st \<and>
          dispatched acts = [] \<and>
          (AdminHandshake \<in> set acts \<longleftrightarrow> err = MessageQueueTokenExpiredError) \<and>
          ((\<exists>tok sid ssn. Refresh tok sid ssn \<in> set acts) \<longleftrightarrow>
             err = MessageQueueTokenExpiredError \<and>
             snd (GetActionsServiceAdminConnection it) = None) \<and>
          (err \<noteq> MessageQueueTokenExpiredError \<longrightarrow>
             st' = st \<and>
             acts = [Poll (MessageQueueUrl sess) (MessageQueueAccessToken sess) (lastMessageId st),
                     LogError]) \<and>
          (err = MessageQueueTokenExpiredError \<and>
           snd (GetActionsServiceAdminConnection it) \<noteq> None \<longrightarrow>
             local_session st' = local_session st \<and> client st' = client st \<and>
             acts = [Poll (MessageQueueUrl sess) (MessageQueueAccessToken sess) (lastMessageId st),
                     AdminHandshake, LogError]) \<and>
          (err = MessageQueueTokenExpiredError \<and>
           snd (GetActionsServiceAdminConnection it) = None \<longrightarrow>
             Refresh (AdminToken conn) (ScaleSetId sess) (SessionId sess) \<in> set acts \<and>
             local_session st' =
               fst (RefreshMessageSession it
                      ((client st)\<lparr>ActionsServiceAdminToken := AdminToken conn\<rparr>)
                      (ScaleSetId sess) (SessionId sess))))"
proof (intro impI)
  assume h: "\<not> ctx_done it \<and> local_session st = Some sess \<and>
   local_actionsAdminConnection st = Some conn \<and>
   GetMessage it (MessageQueueUrl sess) (MessageQueueAccessToken sess) (lastMessageId st) = Inl err"
  show "case loop_body st it of
        (r, st', acts) \<Rightarrow>
          r = Running \<and>
          lastMessageId st' = lastMessageId st \<and>
          dispatched acts = [] \<and>
          (AdminHandshake \<in> set acts \<longleftrightarrow> err = MessageQueueTokenExpiredError) \<and>
          ((\<exists>tok sid ssn. Refresh tok sid ssn \<in> set acts) \<longleftrightarrow>
             err = MessageQueueTokenExpiredError \<and>
             snd (GetActionsServiceAdminConnection it) = None) \<and>
          (err \<noteq> MessageQueueTokenExpiredError \<longrightarrow>
             st' = st \<and>
             acts = [Poll (MessageQueueUrl sess) (MessageQueueAccessToken sess) (lastMessageId st),
                     LogError]) \<and>
          (err = MessageQueueTokenExpiredError \<and>
           snd (GetActionsServiceAdminConnection it) \<noteq> None \<longrightarrow>
             local_session st' = local_session st \<and> client st' = client st \<and>
             acts = [Poll (MessageQueueUrl sess) (MessageQueueAccessToken sess) (lastMessageId st),
                     AdminHandshake, LogError]) \<and>
          (err = MessageQueueTokenExpiredError \<and>
           snd (GetActionsServiceAdminConnection it) = None \<longrightarrow>
             Refresh (AdminToken conn) (ScaleSetId sess) (SessionId sess) \<in> set acts \<and>
             local_session st' =
               fst (RefreshMessageSession it
                      ((client st)\<lparr>ActionsServiceAdminToken := AdminToken conn\<rparr>)
                      (ScaleSetId sess) (SessionId sess)))"
  proof (cases "err = MessageQueueTokenExpiredError")
    case False
    with h show ?thesis
      by (simp add: loop_body_def Let_def)
  next
    case True
    obtain c e where hs: "GetActionsServiceAdminConnection it = (c, e)"
      by (cases "GetActionsServiceAdminConnection it") auto
    obtain s' e' where rf: "RefreshMessageSession it
                      ((client st)\<lparr>ActionsServiceAdminToken := AdminToken conn\<rparr>)
                      (ScaleSetId sess) (SessionId sess) = (s', e')"
      by (cases "RefreshMessageSession it
                      ((client st)\<lparr>ActionsServiceAdminToken := AdminToken conn\<rparr>)
                      (ScaleSetId sess) (SessionId sess)") auto
    show ?thesis
    proof (cases e)
      case (Some x)
      with h True hs show ?thesis
        by (simp add: loop_body_def Let_def)
    next
      case None
      with h True hs rf show ?thesis
        by (cases e') (simp_all add: loop_body_def Let_def)
    qed
  qed
qed

theorem poll_error_refresh_iff_witness:
  "loop_body
      \<lparr>lastMessageId = 7,
       local_session = Some \<lparr>SessionId = ''s'', ScaleSetId = 1, MessageQueueUrl = ''q'',
                             MessageQueueAccessToken = ''t0''\<rparr>,
       builder_session = Some \<lparr>SessionId = ''s'', ScaleSetId = 1, MessageQueueUrl = ''q'',
                               MessageQueueAccessToken = ''t0''\<rparr>,
       local_actionsAdminConnection = Some \<lparr>ActionsServiceUrl = ''a'', AdminToken = ''admin0''\<rparr>,
       builder_actionsAdminConnection = Some \<lparr>ActionsServiceUrl = ''a'', AdminToken = ''admin0''\<rparr>,
       client = \<lparr>ActionsServiceURL = ''a'', ActionsServiceAdminToken = ''admin0''\<rparr>\<rparr>
      \<lparr>ctx_done = False,
       GetMessage = (\<lambda>url tok cursor. Inl (QueueFailure ''timeout'')),
       DeleteMessage = (\<lambda>url tok mid. None),
       GetActionsServiceAdminConnection = (None, Some ''unused''),
       RefreshMessageSession = (\<lambda>c sid ssn. (None, Some ''unused''))\<rparr>
   = (Running,
      \<lparr>lastMessageId = 7,
       local_session = Some \<lparr>SessionId = ''s'', ScaleSetId = 1, MessageQueueUrl = ''q'',
                             MessageQueueAccessToken = ''t0''\<rparr>,
       builder_session = Some \<lparr>SessionId = ''s'', ScaleSetId = 1, MessageQueueUrl = ''q'',
                               MessageQueueAccessToken = ''t0''\<rparr>,
       local_actionsAdminConnection = Some \<lparr>ActionsServiceUrl = ''a'', AdminToken = ''admin0''\<rparr>,
       builder_actionsAdminConnection = Some \<lparr>ActionsServiceUrl = ''a'', AdminToken = ''admin0''\<rparr>,
       client = \<lparr>ActionsServiceURL = ''a'', ActionsServiceAdminToken = ''admin0''\<rparr>\<rparr>,
      [Poll ''q'' ''t0'' 7, LogError]) \<and>
   snd (snd (loop_body
      \<lparr>lastMessageId = 7,
       local_session = Some \<lparr>SessionId = ''s'', ScaleSetId = 1, MessageQueueUrl = ''q'',
                             MessageQueueAccessToken = ''t0''\<rparr>,
       builder_session = Some \<lparr>SessionId = ''s'', ScaleSetId = 1, MessageQueueUrl = ''q'',
                               MessageQueueAccessToken = ''t0''\<rparr>,
       local_actionsAdminConnection = Some \<lparr>ActionsServiceUrl = ''a'', AdminToken = ''admin0''\<rparr>,
       builder_actionsAdminConnection = Some \<lparr>ActionsServiceUrl = ''a'', AdminToken = ''admin0''\<rparr>,
       client = \<lparr>ActionsServiceURL = ''a'', ActionsServiceAdminToken = ''admin0''\<rparr>\<rparr>
      \<lparr>ctx_done = False,
       GetMessage = (\<lambda>url tok cursor. Inl MessageQueueTokenExpiredError),
       DeleteMessage = (\<lambda>url tok mid. None),
       GetActionsServiceAdminConnection = (None, Some ''unreachable''),
       RefreshMessageSession = (\<lambda>c sid ssn. (None, Some ''unused''))\<rparr>))
   = [Poll ''q'' ''t0'' 7, AdminHandshake, LogError] \<and>
   snd (snd (loop_body
      \<lparr>lastMessageId = 7,
       local_session = Some \<lparr>SessionId = ''s'', ScaleSetId = 1, MessageQueueUrl = ''q'',
                             MessageQueueAccessToken = ''t0''\<rparr>,
       builder_session = Some \<lparr>SessionId = ''s'', ScaleSetId = 1, MessageQueueUrl = ''q'',
                               MessageQueueAccessToken = ''t0''\<rparr>,
       local_actionsAdminConnection = Some \<lparr>ActionsServiceUrl = ''a'', AdminToken = ''admin0''\<rparr>,
       builder_actionsAdminConnection = Some \<lparr>ActionsServiceUrl = ''a'', AdminToken = ''admin0''\<rparr>,
       client = \<lparr>ActionsServiceURL = ''a'', ActionsServiceAdminToken = ''admin0''\<rparr>\<rparr>
      \<lparr>ctx_done = False,
       GetMessage = (\<lambda>url tok cursor. Inl MessageQueueTokenExpiredError),
       DeleteMessage = (\<lambda>url tok mid. None),
       GetActionsServiceAdminConnection =
         (Some \<lparr>ActionsServiceUrl = ''a'', AdminToken = ''admin1''\<rparr>, None),
       RefreshMessageSession = (\<lambda>c sid ssn.
         (Some \<lparr>SessionId = ssn, ScaleSetId = sid, MessageQueueUrl = ''q'',
                 MessageQueueAccessToken = ''t1''\<rparr>, None))\<rparr>))
   = [Poll ''q'' ''t0'' 7, AdminHandshake, Refresh ''admin0'' 1 ''s''] \<and>
   local_session (fst (snd (loop_body
      \<lparr>lastMessageId = 7,
       local_session = Some \<lparr>SessionId = ''s'', ScaleSetId = 1, MessageQueueUrl = ''q'',
                             MessageQueueAccessToken = ''t0''\<rparr>,
       builder_session = Some \<lparr>SessionId = ''s'', ScaleSetId = 1, MessageQueueUrl = ''q'',
                               MessageQueueAccessToken = ''t0''\<rparr>,
       local_actionsAdminConnection = Some \<lparr>ActionsServiceUrl = ''a'', AdminToken = ''admin0''\<rparr>,
       builder_actionsAdminConnection = Some \<lparr>ActionsServiceUrl = ''a'', AdminToken = ''admin0''\<rparr>,
       client = \<lparr>ActionsServiceURL = ''a'', ActionsServiceAdminToken = ''admin0''\<rparr>\<rparr>
      \<lparr>ctx_done = False,
       GetMessage = (\<lambda>url tok cursor. Inl MessageQueueTokenExpiredError),
       DeleteMessage = (\<lambda>url tok mid. None),
       GetActionsServiceAdminConnection =
         (Some \<lparr>ActionsServiceUrl = ''a'', AdminToken = ''admin1''\<rparr>, None),
       RefreshMessageSession = (\<lambda>c sid ssn.
         (Some \<lparr>SessionId = ssn, ScaleSetId = sid, MessageQueueUrl = ''q'',
                 MessageQueueAccessToken = ''t1''\<rparr>, None))\<rparr>)))
   = Some \<lparr>SessionId = ''s'', ScaleSetId = 1, MessageQueueUrl = ''q'',
            MessageQueueAccessToken = ''t1''\<rparr>"
  using poll_error_refresh_iff
    [where it = "\<lparr>ctx_done = False,
       GetMessage = (\<lambda>url tok cursor. Inl (QueueFailure ''timeout'')),
       DeleteMessage = (\<lambda>url tok mid. None),
       GetActionsServiceAdminConnection = (None, Some ''unused''),
       RefreshMessageSession = (\<lambda>c sid ssn. (None, Some ''unused''))\<rparr>"
       and st = "\<lparr>lastMessageId = 7,
       local_session = Some \<lparr>SessionId = ''s'', ScaleSetId = 1, MessageQueueUrl = ''q'',
                             MessageQueueAccessToken = ''t0''\<rparr>,
       builder_session = Some \<lparr>SessionId = ''s'', ScaleSetId = 1, MessageQueueUrl = ''q'',
                               MessageQueueAccessToken = ''t0''\<rparr>,
       local_actionsAdminConnection = Some \<lparr>ActionsServiceUrl = ''a'', AdminToken = ''admin0''\<rparr>,
       builder_actionsAdminConnection = Some \<lparr>ActionsServiceUrl = ''a'', AdminToken = ''admin0''\<rparr>,
       client = \<lparr>ActionsServiceURL = ''a'', ActionsServiceAdminToken = ''admin0''\<rparr>\<rparr>"
       and sess = "\<lparr>SessionId = ''s'', ScaleSetId = 1, MessageQueueUrl = ''q'',
                             MessageQueueAccessToken = ''t0''\<rparr>"
       and conn = "\<lparr>ActionsServiceUrl = ''a'', AdminToken = ''admin0''\<rparr>"
       and err = "QueueFailure ''timeout''"]
    poll_error_refresh_iff
    [where it = "\<lparr>ctx_done = False,
       GetMessage = (\<lambda>url tok cursor. Inl MessageQueueTokenExpiredError),
       DeleteMessage = (\<lambda>url tok mid. None),
       GetActionsServiceAdminConnection = (None, Some ''unreachable''),
       RefreshMessageSession = (\<lambda>c sid ssn. (None, Some ''unused''))\<rparr>"
       and st = "\<lparr>lastMessageId = 7,
       local_session = Some \<lparr>SessionId = ''s'', ScaleSetId = 1, MessageQueueUrl = ''q'',
                             MessageQueueAccessToken = ''t0''\<rparr>,
       builder_session = Some \<lparr>SessionId = ''s'', ScaleSetId = 1, MessageQueueUrl = ''q'',
                               MessageQueueAccessToken = ''t0''\<rparr>,
       local_actionsAdminConnection = Some \<lparr>ActionsServiceUrl = ''a'', AdminToken = ''admin0''\<rparr>,
       builder_actionsAdminConnection = Some \<lparr>ActionsServiceUrl = ''a'', AdminToken = ''admin0''\<rparr>,
       client = \<lparr>ActionsServiceURL = ''a'', ActionsServiceAdminToken = ''admin0''\<rparr>\<rparr>"
       and sess = "\<lparr>SessionId = ''s'', ScaleSetId = 1, MessageQueueUrl = ''q'',
                             MessageQueueAccessToken = ''t0''\<rparr>"
       and conn = "\<lparr>ActionsServiceUrl = ''a'', AdminToken = ''admin0''\<rparr>"
       and err = "MessageQueueTokenExpiredError"]
    poll_error_refresh_iff
    [where it = "\<lparr>ctx_done = False,
       GetMessage = (\<lambda>url tok cursor. Inl MessageQueueTokenExpiredError),
       DeleteMessage = (\<lambda>url tok mid. None),
       GetActionsServiceAdminConnection =
         (Some \<lparr>ActionsServiceUrl = ''a'', AdminToken = ''admin1''\<rparr>, None),
       RefreshMessageSession = (\<lambda>c sid ssn.
         (Some \<lparr>SessionId = ssn, ScaleSetId = sid, MessageQueueUrl = ''q'',
                 MessageQueueAccessToken = ''t1''\<rparr>, None))\<rparr>"
       and st = "\<lparr>lastMessageId = 7,
       local_session = Some \<lparr>SessionId = ''s'', ScaleSetId = 1, MessageQueueUrl = ''q'',
                             MessageQueueAccessToken = ''t0''\<rparr>,
       builder_session = Some \<lparr>SessionId = ''s'', ScaleSetId = 1, MessageQueueUrl = ''q'',
                               MessageQueueAccessToken = ''t0''\<rparr>,
       local_actionsAdminConnection = Some \<lparr>ActionsServiceUrl = ''a'', AdminToken = ''admin0''\<rparr>,
       builder_actionsAdminConnection = Some \<lparr>ActionsServiceUrl = ''a'', AdminToken = ''admin0''\<rparr>,
       client = \<lparr>ActionsServiceURL = ''a'', ActionsServiceAdminToken = ''admin0''\<rparr>\<rparr>"
       and sess = "\<lparr>SessionId = ''s'', ScaleSetId = 1, MessageQueueUrl = ''q'',
                             MessageQueueAccessToken = ''t0''\<rparr>"
       and conn = "\<lparr>ActionsServiceUrl = ''a'', AdminToken = ''admin0''\<rparr>"
       and err = "MessageQueueTokenExpiredError"]
  by (simp add: loop_body_def Let_def)








text \<open>
  C2. The claim is that after a token-expired poll and a successful refresh the service
  client carries the admin token of the fresh handshake. Evaluated where the loop was
  entered with the admin token \<open>admin0\<close> and the fresh handshake returns \<open>admin1\<close>: the
  fresh connection is stored in the builder, but the client's token is set from the
  connection the loop was entered with, so it stays \<open>admin0\<close>, and
  \<open>RefreshMessageSession\<close> is called with it. The lease is re-issued for the same scale
  set id and session id, no scale set is created, and the cursor stays at 7.
\<close>

theorem refresh_keeps_stale_admin_token:
  "loop_body
      \<lparr>lastMessageId = 7,
       local_session = Some \<lparr>SessionId = ''s'', ScaleSetId = 1, MessageQueueUrl = ''q'',
                             MessageQueueAccessToken = ''t0''\<rparr>,
       builder_session = Some \<lparr>SessionId = ''s'', ScaleSetId = 1, MessageQueueUrl = ''q'',
                               MessageQueueAccessToken = ''t0''\<rparr>,
       local_actionsAdminConnection = Some \<lparr>ActionsServiceUrl = ''a'', AdminToken = ''admin0''\<rparr>,
       builder_actionsAdminConnection = Some \<lparr>ActionsServiceUrl = ''a'', AdminToken = ''admin0''\<rparr>,
       client = \<lparr>ActionsServiceURL = ''a'', ActionsServiceAdminToken = ''admin0''\<rparr>\<rparr>
      \<lparr>ctx_done = False,
       GetMessage = (\<lambda>url tok cursor. Inl MessageQueueTokenExpiredError),
       DeleteMessage = (\<lambda>url tok mid. None),
       GetActionsServiceAdminConnection =
         (Some \<lparr>ActionsServiceUrl = ''a'', AdminToken = ''admin1''\<rparr>, None),
       RefreshMessageSession = (\<lambda>c sid ssn.
         (Some \<lparr>SessionId = ssn, ScaleSetId = sid, MessageQueueUrl = ''q'',
                 MessageQueueAccessToken = ''t1''\<rparr>, None))\<rparr>
   = (Running,
      \<lparr>lastMessageId = 7,
       local_session = Some \<lparr>SessionId = ''s'', ScaleSetId = 1, MessageQueueUrl = ''q'',
                             MessageQueueAccessToken = ''t1''\<rparr>,
       builder_session = Some \<lparr>SessionId = ''s'', ScaleSetId = 1, MessageQueueUrl = ''q'',
                               MessageQueueAccessToken = ''t0''\<rparr>,
       local_actionsAdminConnection = Some \<lparr>ActionsServiceUrl = ''a'', AdminToken = ''admin0''\<rparr>,
       builder_actionsAdminConnection = Some \<lparr>ActionsServiceUrl = ''a'', AdminToken = ''admin1''\<rparr>,
       client = \<lparr>ActionsServiceURL = ''a'', ActionsServiceAdminToken = ''admin0''\<rparr>\<rparr>,
      [Poll ''q'' ''t0'' 7, AdminHandshake, Refresh ''admin0'' 1 ''s''])"
  by (simp add: loop_body_def Let_def)

subsection \<open>The runner replica set controller\<close>

lemma notBusy_loop_Cons:
  "notBusy_loop e (r # rs) acc =
     (case snd (IsRunnerBusy (ListRunners e r) (RunnerName r)) of
        Some (ListError RateLimitError) \<Rightarrow>
          Inl (retryDelayOnGitHubAPIRateLimitError e, ListError RateLimitError)
      | Some (ListError (ListFailure x)) \<Rightarrow> Inl (0, ListError (ListFailure x))
      | _ \<Rightarrow> notBusy_loop e rs (if not_busy_candidate e r then acc @ [r] else acc))"
  by (simp add: not_busy_candidate_def Let_def
           split: prod.splits option.splits probe_error.splits list_error.splits)

lemma notBusy_loop_Inr:
  "notBusy_loop e rs acc = Inr nb \<Longrightarrow> nb = acc @ filter (not_busy_candidate e) rs"
proof (induction rs arbitrary: acc)
  case Nil
  then show ?case by simp
next
  case (Cons r rs)
  from Cons.prems
  have "notBusy_loop e rs (if not_busy_candidate e r then acc @ [r] else acc) = Inr nb"
    unfolding notBusy_loop_Cons
    by (auto split: option.splits probe_error.splits list_error.splits if_splits)
  from Cons.IH [OF this] show ?case by simp
qed

lemma notBusy_loop_no_abort:
  "\<forall>r \<in> set rs. \<forall>x. snd (IsRunnerBusy (ListRunners e r) (RunnerName r)) \<noteq> Some (ListError x) \<Longrightarrow>
   notBusy_loop e rs acc = Inr (acc @ filter (not_busy_candidate e) rs)"
proof (induction rs arbitrary: acc)
  case Nil
  then show ?case by simp
next
  case (Cons r rs)
  from Cons.prems
  have "notBusy_loop e (r # rs) acc =
          notBusy_loop e rs (if not_busy_candidate e r then acc @ [r] else acc)"
    unfolding notBusy_loop_Cons
    by (simp split: option.splits probe_error.splits list_error.splits)
  moreover have "notBusy_loop e rs (if not_busy_candidate e r then acc @ [r] else acc) =
          Inr ((if not_busy_candidate e r then acc @ [r] else acc) @ filter (not_busy_candidate e) rs)"
    using Cons.prems by (intro Cons.IH) simp
  ultimately show ?case by simp
qed

lemma delete_loop_subset: "set (snd (delete_loop e rs)) \<subseteq> set rs"
  by (induction rs) (auto split: option.splits prod.splits)

lemma delete_loop_all:
  "\<forall>r \<in> set rs. IgnoreNotFound (Delete e r) = None \<Longrightarrow> delete_loop e rs = (None, rs)"
  by (induction rs) auto

lemma deleted_update_status: "deleted (update_status e rs a b ds c) = ds"
  by (simp add: update_status_def split: option.splits)

lemma deleted_reconcile_runners_cases:
  "deleted (reconcile_runners e rs allRunners) = [] \<or>
   (\<exists>nb k. notBusy_loop e (myRunners rs allRunners) [] = Inr nb \<and>
           deleted (reconcile_runners e rs allRunners) = snd (delete_loop e (take k nb)))"
proof (cases "int (length (myRunners rs allRunners)) > desired rs")
  case False
  then show ?thesis
    by (simp add: reconcile_runners_def Let_def deleted_update_status split: prod.splits option.splits)
next
  case True
  show ?thesis
  proof (cases "notBusy_loop e (myRunners rs allRunners) []")
    case (Inl a)
    with True show ?thesis
      by (simp add: reconcile_runners_def Let_def split: prod.splits)
  next
    case (Inr nb)
    define k where "k = nat (if int (length nb) < wrap64 (int (length (myRunners rs allRunners)) - desired rs)
                             then int (length nb)
                             else wrap64 (int (length (myRunners rs allRunners)) - desired rs))"
    have "deleted (reconcile_runners e rs allRunners) = snd (delete_loop e (take k nb))"
      using True Inr unfolding k_def
      by (simp add: reconcile_runners_def Let_def deleted_update_status
               split: prod.splits option.splits)
    with Inr show ?thesis by blast
  qed
qed

lemma deleted_reconcile_runners:
  "set (deleted (reconcile_runners e rs allRunners))
     \<subseteq> {r \<in> set (myRunners rs allRunners). not_busy_candidate e r}"
proof -
  from deleted_reconcile_runners_cases [of e rs allRunners]
  show ?thesis
  proof
    assume "deleted (reconcile_runners e rs allRunners) = []"
    then show ?thesis by simp
  next
    assume "\<exists>nb k. notBusy_loop e (myRunners rs allRunners) [] = Inr nb \<and>
           deleted (reconcile_runners e rs allRunners) = snd (delete_loop e (take k nb))"
    then obtain nb k where loop: "notBusy_loop e (myRunners rs allRunners) [] = Inr nb"
      and del: "deleted (reconcile_runners e rs allRunners) = snd (delete_loop e (take k nb))"
      by blast
    from notBusy_loop_Inr [OF loop]
    have nb: "nb = filter (not_busy_candidate e) (myRunners rs allRunners)" by simp
    have "set (snd (delete_loop e (take k nb))) \<subseteq> set (take k nb)"
      by (rule delete_loop_subset)
    also have "\<dots> \<subseteq> set nb"
      by (rule set_take_subset)
    finally show ?thesis
      unfolding del nb by auto
  qed
qed

lemma deleted_Reconcile:
  "Get e = Inr rs \<Longrightarrow> ListItems e = Inr allRunners \<Longrightarrow>
   set (deleted (Reconcile e)) \<subseteq> {r \<in> set (myRunners rs allRunners). not_busy_candidate e r}"
  using deleted_reconcile_runners [of e rs allRunners]
  by (simp add: Reconcile_def)

lemma deleted_Reconcile_candidate:
  "r \<in> set (deleted (Reconcile e)) \<Longrightarrow> not_busy_candidate e r"
proof (cases "Get e")
  case (Inl a)
  assume "r \<in> set (deleted (Reconcile e))"
  with Inl show ?thesis by (simp add: Reconcile_def)
next
  case (Inr rs)
  assume r: "r \<in> set (deleted (Reconcile e))"
  show ?thesis
  proof (cases "ListItems e")
    case (Inl err)
    with Inr r have "r \<in> set (deleted (reconcile_runners e rs []))"
      by (simp add: Reconcile_def split: if_splits)
    then show ?thesis using deleted_reconcile_runners [of e rs "[]"] by auto
  next
    case (Inr allRunners)
    with \<open>Get e = Inr rs\<close> r have "r \<in> set (deleted (reconcile_runners e rs allRunners))"
      by (simp add: Reconcile_def split: if_splits)
    then show ?thesis using deleted_reconcile_runners [of e rs allRunners] by auto
  qed
qed

lemma wrap64_id: "0 \<le> x \<Longrightarrow> x < 2 ^ 63 \<Longrightarrow> wrap64 x = x"
  unfolding wrap64_def by (rule signed_take_bit_int_eq_self) simp_all

lemma notBusy_loop_abort:
  "r \<in> set rs \<Longrightarrow> snd (IsRunnerBusy (ListRunners e r) (RunnerName r)) = Some (ListError x) \<Longrightarrow>
   \<exists>d err. notBusy_loop e rs acc = Inl (d, err)"
proof (induction rs arbitrary: acc)
  case Nil
  then show ?case by simp
next
  case (Cons a rs)
  show ?case
  proof (cases "\<exists>y. snd (IsRunnerBusy (ListRunners e a) (RunnerName a)) = Some (ListError y)")
    case True
    then show ?thesis
      unfolding notBusy_loop_Cons by (auto split: list_error.splits)
  next
    case False
    with Cons.prems have "r \<in> set rs" by auto
    from Cons.IH [OF this Cons.prems(2)]
    have "\<exists>d err. notBusy_loop e rs (if not_busy_candidate e a then acc @ [a] else acc) = Inl (d, err)" .
    with False show ?thesis
      unfolding notBusy_loop_Cons
      by (auto split: option.splits probe_error.splits list_error.splits)
  qed
qed

lemma probe_failure_is_returned:
  assumes "Get e = Inr rs" "DeletionTimestamp rs = None" "ListItems e = Inr allRunners"
      and "int (length (myRunners rs allRunners)) > desired rs"
      and "r \<in> set (myRunners rs allRunners)"
      and "snd (IsRunnerBusy (ListRunners e r) (RunnerName r)) = Some (ListError x)"
  shows "error (Reconcile e) \<noteq> None \<and> deleted (Reconcile e) = [] \<and>
         status_written (Reconcile e) = None"
proof -
  from notBusy_loop_abort [OF assms(5,6)]
  obtain d err where "notBusy_loop e (myRunners rs allRunners) [] = Inl (d, err)" by blast
  with assms(1-4) show ?thesis
    by (simp add: Reconcile_def reconcile_runners_def Let_def)
qed

text \<open>
  C1, as amended. In a pass where the available runners exceed the desired count, every
  runner deleted is one of the replica set's runners and a candidate: its probe
  succeeded and reported not busy, or it was classified offline, or it was classified
  not registered and is older than the registration timeout. A runner whose probe
  succeeds and reports busy is never deleted. When no probe fails with an error of the
  listing, no \<open>Delete\<close> call fails, and there are fewer candidates than the excess
  \<open>available - desired\<close> (which fits Go's 64-bit \<open>int\<close>), the runners deleted are exactly
  the candidates, in the order of the listing.
\<close>

theorem scale_down_deletes_only_candidates:
  assumes "Get e = Inr rs" and "DeletionTimestamp rs = None" and "ListItems e = Inr allRunners"
      and "int (length (myRunners rs allRunners)) > desired rs"
  shows "set (deleted (Reconcile e))
           \<subseteq> {r \<in> set (myRunners rs allRunners). not_busy_candidate e r} \<and>
         (\<forall>r. IsRunnerBusy (ListRunners e r) (RunnerName r) = (True, None) \<longrightarrow>
              r \<notin> set (deleted (Reconcile e))) \<and>
         ((\<forall>r \<in> set (myRunners rs allRunners). \<forall>x.
              snd (IsRunnerBusy (ListRunners e r) (RunnerName r)) \<noteq> Some (ListError x)) \<and>
          (\<forall>r \<in> set (myRunners rs allRunners). IgnoreNotFound (Delete e r) = None) \<and>
          int (length (filter (not_busy_candidate e) (myRunners rs allRunners)))
            < int (length (myRunners rs allRunners)) - desired rs \<and>
          int (length (myRunners rs allRunners)) - desired rs < 2 ^ 63 \<longrightarrow>
            deleted (Reconcile e) = filter (not_busy_candidate e) (myRunners rs allRunners))"
proof (intro conjI allI impI)
  show "set (deleted (Reconcile e))
           \<subseteq> {r \<in> set (myRunners rs allRunners). not_busy_candidate e r}"
    using deleted_Reconcile [OF assms(1,3)] .
next
  fix r
  assume busy: "IsRunnerBusy (ListRunners e r) (RunnerName r) = (True, None)"
  then have "\<not> not_busy_candidate e r"
    by (simp add: not_busy_candidate_def)
  then show "r \<notin> set (deleted (Reconcile e))"
    using deleted_Reconcile_candidate by blast
next
  let ?mine = "myRunners rs allRunners"
  let ?cands = "filter (not_busy_candidate e) ?mine"
  assume h: "(\<forall>r \<in> set ?mine. \<forall>x.
              snd (IsRunnerBusy (ListRunners e r) (RunnerName r)) \<noteq> Some (ListError x)) \<and>
          (\<forall>r \<in> set ?mine. IgnoreNotFound (Delete e r) = None) \<and>
          int (length ?cands) < int (length ?mine) - desired rs \<and>
          int (length ?mine) - desired rs < 2 ^ 63"
  then have loop: "notBusy_loop e ?mine [] = Inr ?cands"
    using notBusy_loop_no_abort [of ?mine e "[]"] by simp
  have w: "wrap64 (int (length ?mine) - desired rs) = int (length ?mine) - desired rs"
    using h assms(4) by (intro wrap64_id) simp_all
  have "\<forall>r \<in> set ?cands. IgnoreNotFound (Delete e r) = None"
    using h by simp
  then have del: "delete_loop e ?cands = (None, ?cands)"
    by (rule delete_loop_all)
  have lt: "int (length ?cands) < int (length ?mine) - desired rs"
    using h by simp
  show "deleted (Reconcile e) = ?cands"
    using assms lt
    by (simp add: Reconcile_def reconcile_runners_def Let_def loop w del deleted_update_status)
qed

theorem scale_down_deletes_only_candidates_witness:
  "deleted (Reconcile
        \<lparr>Get = Inr \<lparr>UID = ''rs'', Replicas = Some 0, DeletionTimestamp = None,
                    AvailableReplicas = 2, ReadyReplicas = 2\<rparr>,
         ListItems = Inr [\<lparr>RunnerName = ''r1'', ControllerUID = Some ''rs'',
                           Phase = ''Running'', CreationTimestamp = 0\<rparr>,
                          \<lparr>RunnerName = ''r2'', ControllerUID = Some ''rs'',
                           Phase = ''Running'', CreationTimestamp = 0\<rparr>],
         ListRunners = (\<lambda>r. Inr [\<lparr>Name = Some ''r1'', Status = Some ''online'',
                                   Busy = Some True\<rparr>,
                                  \<lparr>Name = Some ''r2'', Status = Some ''online'',
                                   Busy = Some False\<rparr>]),
         Now = (\<lambda>r. 60 * Minute),
         Delete = (\<lambda>r. None),
         Create = (\<lambda>i. None),
         StatusUpdate = (\<lambda>counts. None),
         retryDelayOnGitHubAPIRateLimitError = 30000000000\<rparr>)
     = [\<lparr>RunnerName = ''r2'', ControllerUID = Some ''rs'', Phase = ''Running'',
         CreationTimestamp = 0\<rparr>]"
  using scale_down_deletes_only_candidates
    [where e = "\<lparr>Get = Inr \<lparr>UID = ''rs'', Replicas = Some 0, DeletionTimestamp = None,
                    AvailableReplicas = 2, ReadyReplicas = 2\<rparr>,
         ListItems = Inr [\<lparr>RunnerName = ''r1'', ControllerUID = Some ''rs'',
                           Phase = ''Running'', CreationTimestamp = 0\<rparr>,
                          \<lparr>RunnerName = ''r2'', ControllerUID = Some ''rs'',
                           Phase = ''Running'', CreationTimestamp = 0\<rparr>],
         ListRunners = (\<lambda>r. Inr [\<lparr>Name = Some ''r1'', Status = Some ''online'',
                                   Busy = Some True\<rparr>,
                                  \<lparr>Name = Some ''r2'', Status = Some ''online'',
                                   Busy = Some False\<rparr>]),
         Now = (\<lambda>r. 60 * Minute),
         Delete = (\<lambda>r. None),
         Create = (\<lambda>i. None),
         StatusUpdate = (\<lambda>counts. None),
         retryDelayOnGitHubAPIRateLimitError = 30000000000\<rparr>"
       and rs = "\<lparr>UID = ''rs'', Replicas = Some 0, DeletionTimestamp = None,
                    AvailableReplicas = 2, ReadyReplicas = 2\<rparr>"
       and allRunners = "[\<lparr>RunnerName = ''r1'', ControllerUID = Some ''rs'',
                           Phase = ''Running'', CreationTimestamp = 0\<rparr>,
                          \<lparr>RunnerName = ''r2'', ControllerUID = Some ''rs'',
                           Phase = ''Running'', CreationTimestamp = 0\<rparr>]"]
  by (simp add: myRunners_def IsControlledBy_def desired_def IsRunnerBusy_def GetName_def
        GetStatus_def GetBusy_def IgnoreNotFound_def not_busy_candidate_def)

text \<open>
  The claim as it was stated says that a runner whose probe reports busy is never
  deleted. A runner listed as offline and busy is probed as \<open>(true, RunnerOffline)\<close>,
  and the loop, which treats every offline runner as a target for scale down, deletes
  it.
\<close>

theorem busy_offline_runner_is_deleted:
  "IsRunnerBusy
     (ListRunners
        \<lparr>Get = Inr \<lparr>UID = ''rs'', Replicas = Some 0, DeletionTimestamp = None,
                    AvailableReplicas = 1, ReadyReplicas = 1\<rparr>,
         ListItems = Inr [\<lparr>RunnerName = ''r1'', ControllerUID = Some ''rs'',
                           Phase = ''Running'', CreationTimestamp = 0\<rparr>],
         ListRunners = (\<lambda>r. Inr [\<lparr>Name = Some ''r1'', Status = Some ''offline'',
                                   Busy = Some True\<rparr>]),
         Now = (\<lambda>r. 60 * Minute),
         Delete = (\<lambda>r. None),
         Create = (\<lambda>i. None),
         StatusUpdate = (\<lambda>counts. None),
         retryDelayOnGitHubAPIRateLimitError = 30000000000\<rparr>
        \<lparr>RunnerName = ''r1'', ControllerUID = Some ''rs'', Phase = ''Running'',
         CreationTimestamp = 0\<rparr>)
     ''r1'' = (True, Some (RunnerOffline ''r1'')) \<and>
   deleted (Reconcile
        \<lparr>Get = Inr \<lparr>UID = ''rs'', Replicas = Some 0, DeletionTimestamp = None,
                    AvailableReplicas = 1, ReadyReplicas = 1\<rparr>,
         ListItems = Inr [\<lparr>RunnerName = ''r1'', ControllerUID = Some ''rs'',
                           Phase = ''Running'', CreationTimestamp = 0\<rparr>],
         ListRunners = (\<lambda>r. Inr [\<lparr>Name = Some ''r1'', Status = Some ''offline'',
                                   Busy = Some True\<rparr>]),
         Now = (\<lambda>r. 60 * Minute),
         Delete = (\<lambda>r. None),
         Create = (\<lambda>i. None),
         StatusUpdate = (\<lambda>counts. None),
         retryDelayOnGitHubAPIRateLimitError = 30000000000\<rparr>)
     = [\<lparr>RunnerName = ''r1'', ControllerUID = Some ''rs'', Phase = ''Running'',
         CreationTimestamp = 0\<rparr>]"
  by (simp add: Reconcile_def reconcile_runners_def myRunners_def IsControlledBy_def desired_def
        wrap64_id IsRunnerBusy_def GetName_def GetStatus_def GetBusy_def IgnoreNotFound_def
        update_status_def Let_def)

text \<open>
  C3. The claim is that a rate-limited probe aborts the pass without deletions, asks for
  one retry after the fixed delay, and raises no failure to the caller. Evaluated on
  five runners with three desired, where the third probe is rate limited: nothing is
  deleted and \<open>RequeueAfter\<close> is the delay, but the error returned to the caller is the
  rate limit error, not nil.
\<close>

theorem rate_limited_probe_returns_error:
  "Reconcile
        \<lparr>Get = Inr \<lparr>UID = ''rs'', Replicas = Some 3, DeletionTimestamp = None,
                    AvailableReplicas = 5, ReadyReplicas = 5\<rparr>,
         ListItems = Inr [\<lparr>RunnerName = ''r1'', ControllerUID = Some ''rs'',
                           Phase = ''Running'', CreationTimestamp = 0\<rparr>,
                          \<lparr>RunnerName = ''r2'', ControllerUID = Some ''rs'',
                           Phase = ''Running'', CreationTimestamp = 0\<rparr>,
                          \<lparr>RunnerName = ''r3'', ControllerUID = Some ''rs'',
                           Phase = ''Running'', CreationTimestamp = 0\<rparr>,
                          \<lparr>RunnerName = ''r4'', ControllerUID = Some ''rs'',
                           Phase = ''Running'', CreationTimestamp = 0\<rparr>,
                          \<lparr>RunnerName = ''r5'', ControllerUID = Some ''rs'',
                           Phase = ''Running'', CreationTimestamp = 0\<rparr>],
         ListRunners = (\<lambda>r. if RunnerName r = ''r3'' then Inl RateLimitError
                              else Inr [\<lparr>Name = Some (RunnerName r), Status = Some ''online'',
                                         Busy = Some False\<rparr>]),
         Now = (\<lambda>r. 60 * Minute),
         Delete = (\<lambda>r. None),
         Create = (\<lambda>i. None),
         StatusUpdate = (\<lambda>counts. None),
         retryDelayOnGitHubAPIRateLimitError = 30000000000\<rparr>
     = \<lparr>RequeueAfter = 30000000000,
        error = Some (ProbeFailed (ListError RateLimitError)),
        deleted = [], created_count = 0, status_written = None\<rparr>"
  by (simp add: Reconcile_def reconcile_runners_def myRunners_def IsControlledBy_def desired_def
        wrap64_id IsRunnerBusy_def GetName_def GetStatus_def GetBusy_def Let_def)

text \<open>
  C4. For a runner whose probe is classified not registered: it is among the candidates
  the loop collects if and only if the clock, read while handling it, is more than 15
  minutes past its creation timestamp; and \<open>Reconcile\<close> never deletes it unless it is
  that old.
\<close>

theorem unregistered_runner_registration_grace:
  "snd (IsRunnerBusy (ListRunners e r) (RunnerName r)) = Some (RunnerNotFound nm) \<longrightarrow>
     (notBusy_loop e runners [] = Inr notBusy \<and> r \<in> set runners \<longrightarrow>
        (r \<in> set notBusy \<longleftrightarrow> Now e r - CreationTimestamp r > 15 * Minute)) \<and>
     (r \<in> set (deleted (Reconcile e)) \<longrightarrow> Now e r - CreationTimestamp r > 15 * Minute)"
proof (intro impI conjI)
  assume probe: "snd (IsRunnerBusy (ListRunners e r) (RunnerName r)) = Some (RunnerNotFound nm)"
  then have cand: "not_busy_candidate e r \<longleftrightarrow> Now e r - CreationTimestamp r > 15 * Minute"
    by (cases "IsRunnerBusy (ListRunners e r) (RunnerName r)") (simp add: not_busy_candidate_def)
  {
    assume "notBusy_loop e runners [] = Inr notBusy \<and> r \<in> set runners"
    then have "notBusy = filter (not_busy_candidate e) runners" and "r \<in> set runners"
      using notBusy_loop_Inr by fastforce+
    then show "r \<in> set notBusy \<longleftrightarrow> Now e r - CreationTimestamp r > 15 * Minute"
      using cand by simp
  }
  {
    assume "r \<in> set (deleted (Reconcile e))"
    then show "Now e r - CreationTimestamp r > 15 * Minute"
      using deleted_Reconcile_candidate cand by blast
  }
qed

theorem unregistered_runner_registration_grace_witness:
  "notBusy_loop
        \<lparr>Get = Inr \<lparr>UID = ''rs'', Replicas = Some 0, DeletionTimestamp = None,
                    AvailableReplicas = 2, ReadyReplicas = 0\<rparr>,
         ListItems = Inr [\<lparr>RunnerName = ''young'', ControllerUID = Some ''rs'',
                           Phase = ''Pending'', CreationTimestamp = 50 * Minute\<rparr>,
                          \<lparr>RunnerName = ''old'', ControllerUID = Some ''rs'',
                           Phase = ''Pending'', CreationTimestamp = 0\<rparr>],
         ListRunners = (\<lambda>r. Inr []),
         Now = (\<lambda>r. 60 * Minute),
         Delete = (\<lambda>r. None),
         Create = (\<lambda>i. None),
         StatusUpdate = (\<lambda>counts. None),
         retryDelayOnGitHubAPIRateLimitError = 30000000000\<rparr>
        [\<lparr>RunnerName = ''young'', ControllerUID = Some ''rs'',
                           Phase = ''Pending'', CreationTimestamp = 50 * Minute\<rparr>,
         \<lparr>RunnerName = ''old'', ControllerUID = Some ''rs'',
                           Phase = ''Pending'', CreationTimestamp = 0\<rparr>] []
     = Inr [\<lparr>RunnerName = ''old'', ControllerUID = Some ''rs'',
                           Phase = ''Pending'', CreationTimestamp = 0\<rparr>] \<and>
   deleted (Reconcile
        \<lparr>Get = Inr \<lparr>UID = ''rs'', Replicas = Some 0, DeletionTimestamp = None,
                    AvailableReplicas = 2, ReadyReplicas = 0\<rparr>,
         ListItems = Inr [\<lparr>RunnerName = ''young'', ControllerUID = Some ''rs'',
                           Phase = ''Pending'', CreationTimestamp = 50 * Minute\<rparr>,
                          \<lparr>RunnerName = ''old'', ControllerUID = Some ''rs'',
                           Phase = ''Pending'', CreationTimestamp = 0\<rparr>],
         ListRunners = (\<lambda>r. Inr []),
         Now = (\<lambda>r. 60 * Minute),
         Delete = (\<lambda>r. None),
         Create = (\<lambda>i. None),
         StatusUpdate = (\<lambda>counts. None),
         retryDelayOnGitHubAPIRateLimitError = 30000000000\<rparr>)
     = [\<lparr>RunnerName = ''old'', ControllerUID = Some ''rs'',
                           Phase = ''Pending'', CreationTimestamp = 0\<rparr>]"
  using unregistered_runner_registration_grace
    [where e = "\<lparr>Get = Inr \<lparr>UID = ''rs'', Replicas = Some 0, DeletionTimestamp = None,
                    AvailableReplicas = 2, ReadyReplicas = 0\<rparr>,
         ListItems = Inr [\<lparr>RunnerName = ''young'', ControllerUID = Some ''rs'',
                           Phase = ''Pending'', CreationTimestamp = 50 * Minute\<rparr>,
                          \<lparr>RunnerName = ''old'', ControllerUID = Some ''rs'',
                           Phase = ''Pending'', CreationTimestamp = 0\<rparr>],
         ListRunners = (\<lambda>r. Inr []),
         Now = (\<lambda>r. 60 * Minute),
         Delete = (\<lambda>r. None),
         Create = (\<lambda>i. None),
         StatusUpdate = (\<lambda>counts. None),
         retryDelayOnGitHubAPIRateLimitError = 30000000000\<rparr>"
       and r = "\<lparr>RunnerName = ''old'', ControllerUID = Some ''rs'',
                           Phase = ''Pending'', CreationTimestamp = 0\<rparr>"
       and nm = "''old''"
       and runners = "[\<lparr>RunnerName = ''young'', ControllerUID = Some ''rs'',
                           Phase = ''Pending'', CreationTimestamp = 50 * Minute\<rparr>,
         \<lparr>RunnerName = ''old'', ControllerUID = Some ''rs'',
                           Phase = ''Pending'', CreationTimestamp = 0\<rparr>]"
       and notBusy = "[\<lparr>RunnerName = ''old'', ControllerUID = Some ''rs'',
                           Phase = ''Pending'', CreationTimestamp = 0\<rparr>]"]
    unregistered_runner_registration_grace
    [where e = "\<lparr>Get = Inr \<lparr>UID = ''rs'', Replicas = Some 0, DeletionTimestamp = None,
                    AvailableReplicas = 2, ReadyReplicas = 0\<rparr>,
         ListItems = Inr [\<lparr>RunnerName = ''young'', ControllerUID = Some ''rs'',
                           Phase = ''Pending'', CreationTimestamp = 50 * Minute\<rparr>,
                          \<lparr>RunnerName = ''old'', ControllerUID = Some ''rs'',
                           Phase = ''Pending'', CreationTimestamp = 0\<rparr>],
         ListRunners = (\<lambda>r. Inr []),
         Now = (\<lambda>r. 60 * Minute),
         Delete = (\<lambda>r. None),
         Create = (\<lambda>i. None),
         StatusUpdate = (\<lambda>counts. None),
         retryDelayOnGitHubAPIRateLimitError = 30000000000\<rparr>"
       and r = "\<lparr>RunnerName = ''young'', ControllerUID = Some ''rs'',
                           Phase = ''Pending'', CreationTimestamp = 50 * Minute\<rparr>"
       and nm = "''young''"
       and runners = "[\<lparr>RunnerName = ''young'', ControllerUID = Some ''rs'',
                           Phase = ''Pending'', CreationTimestamp = 50 * Minute\<rparr>,
         \<lparr>RunnerName = ''old'', ControllerUID = Some ''rs'',
                           Phase = ''Pending'', CreationTimestamp = 0\<rparr>]"
       and notBusy = "[\<lparr>RunnerName = ''old'', ControllerUID = Some ''rs'',
                           Phase = ''Pending'', CreationTimestamp = 0\<rparr>]"]
  by (simp add: Reconcile_def reconcile_runners_def myRunners_def IsControlledBy_def desired_def
        wrap64_id IsRunnerBusy_def IgnoreNotFound_def update_status_def Let_def Minute_def)

lemma length_delete_loop: "length (snd (delete_loop e rs)) \<le> length rs"
  by (induction rs) (auto split: option.splits prod.splits)

lemma create_loop_count: "snd (create_loop e i k) \<le> k"
proof (induction k arbitrary: i)
  case 0
  then show ?case by simp
next
  case (Suc k)
  from Suc [of "Suc i"] show ?case
    by (cases "create_loop e (Suc i) k") (auto split: option.splits)
qed

lemma wrap64_le: "0 \<le> x \<Longrightarrow> wrap64 x \<le> x"
  unfolding wrap64_def by (simp add: signed_take_bit_int_less_eq_self_iff)

lemma desired_nil: "Replicas rs = None \<Longrightarrow> desired rs = 1"
  by (simp add: desired_def)

lemma nil_replicas_scale_up:
  assumes "Replicas rs = None" and "myRunners rs allRunners = []"
  shows "deleted (reconcile_runners e rs allRunners) = []"
    and "created_count (reconcile_runners e rs allRunners) \<le> 1"
    and "Create e 0 = None \<Longrightarrow> created_count (reconcile_runners e rs allRunners) = 1"
proof -
  have w: "nat (wrap64 1) = Suc 0"
    by (simp add: wrap64_id)
  show "deleted (reconcile_runners e rs allRunners) = []"
    using assms
    by (simp add: reconcile_runners_def Let_def desired_nil w deleted_update_status
             split: option.splits prod.splits)
  show "created_count (reconcile_runners e rs allRunners) \<le> 1"
    using assms
    by (simp add: reconcile_runners_def Let_def desired_nil w update_status_def
             split: option.splits prod.splits)
  show "created_count (reconcile_runners e rs allRunners) = 1" if "Create e 0 = None"
    using assms that
    by (simp add: reconcile_runners_def Let_def desired_nil w update_status_def
             split: option.splits prod.splits)
qed

lemma nil_replicas_one_runner:
  assumes "Replicas rs = None" and "length (myRunners rs allRunners) = 1"
  shows "deleted (reconcile_runners e rs allRunners) = [] \<and>
         created_count (reconcile_runners e rs allRunners) = 0"
  using assms
  by (simp add: reconcile_runners_def Let_def desired_nil update_status_def split: option.splits)

lemma nil_replicas_scale_down:
  assumes nil: "Replicas rs = None" and many: "1 < length (myRunners rs allRunners)"
  shows "created_count (reconcile_runners e rs allRunners) = 0"
    and "length (deleted (reconcile_runners e rs allRunners))
           \<le> length (myRunners rs allRunners) - 1"
    and "\<lbrakk>int (length (myRunners rs allRunners)) \<le> 2 ^ 63;
          \<forall>r \<in> set (myRunners rs allRunners). \<forall>x.
             snd (IsRunnerBusy (ListRunners e r) (RunnerName r)) \<noteq> Some (ListError x);
          \<forall>r \<in> set (myRunners rs allRunners). IgnoreNotFound (Delete e r) = None\<rbrakk> \<Longrightarrow>
         deleted (reconcile_runners e rs allRunners) =
           take (length (myRunners rs allRunners) - 1)
             (filter (not_busy_candidate e) (myRunners rs allRunners))"
proof -
  let ?mine = "myRunners rs allRunners"
  let ?n = "wrap64 (int (length ?mine) - 1)"
  have gt: "int (length ?mine) > desired rs"
    using nil many by (simp add: desired_nil)
  have d: "desired rs = 1"
    using nil by (rule desired_nil)
  have "0 \<le> int (length ?mine) - 1"
    using many by linarith
  then have nle: "?n \<le> int (length ?mine) - 1"
    by (rule wrap64_le)
  show "created_count (reconcile_runners e rs allRunners) = 0"
    using gt
    by (simp add: reconcile_runners_def Let_def update_status_def
             split: sum.splits option.splits prod.splits)
  show "length (deleted (reconcile_runners e rs allRunners)) \<le> length ?mine - 1"
  proof (cases "notBusy_loop e ?mine []")
    case (Inl a)
    with gt show ?thesis
      by (simp add: reconcile_runners_def Let_def split: prod.splits)
  next
    case (Inr nb)
    define k where "k = nat (if int (length nb) < ?n then int (length nb) else ?n)"
    have del: "deleted (reconcile_runners e rs allRunners) = snd (delete_loop e (take k nb))"
      using gt Inr d unfolding k_def
      by (simp add: reconcile_runners_def Let_def deleted_update_status
               split: prod.splits option.splits)
    have "k \<le> length ?mine - 1"
      using nle unfolding k_def by (auto split: if_splits)
    moreover have "length (snd (delete_loop e (take k nb))) \<le> length (take k nb)"
      by (rule length_delete_loop)
    ultimately show ?thesis
      unfolding del by simp
  qed
  show "deleted (reconcile_runners e rs allRunners) =
           take (length ?mine - 1) (filter (not_busy_candidate e) ?mine)"
    if fits: "int (length ?mine) \<le> 2 ^ 63"
      and probes: "\<forall>r \<in> set ?mine. \<forall>x.
             snd (IsRunnerBusy (ListRunners e r) (RunnerName r)) \<noteq> Some (ListError x)"
      and deletes: "\<forall>r \<in> set ?mine. IgnoreNotFound (Delete e r) = None"
  proof -
    let ?cands = "filter (not_busy_candidate e) ?mine"
    have loop: "notBusy_loop e ?mine [] = Inr ?cands"
      using notBusy_loop_no_abort [OF probes, of "[]"] by simp
    have "0 \<le> int (length ?mine) - 1" and "int (length ?mine) - 1 < 2 ^ 63"
      using many fits by linarith+
    then have n: "?n = int (length ?mine) - 1"
      by (rule wrap64_id)
    define k where "k = nat (if int (length ?cands) < ?n then int (length ?cands) else ?n)"
    have tk: "take k ?cands = take (length ?mine - 1) ?cands"
      unfolding k_def n using many by (auto simp: nat_diff_distrib)
    have "\<forall>r \<in> set (take k ?cands). IgnoreNotFound (Delete e r) = None"
      using deletes by (auto dest: in_set_takeD)
    then have del: "delete_loop e (take k ?cands) = (None, take k ?cands)"
      by (rule delete_loop_all)
    have "deleted (reconcile_runners e rs allRunners) = take k ?cands"
      using gt d loop del unfolding k_def
      by (simp add: reconcile_runners_def Let_def deleted_update_status)
    with tk show ?thesis by simp
  qed
qed

text \<open>
  C10. A replica set whose \<open>Replicas\<close> is nil has the desired count 1, and every pass
  moves the number of its runners toward exactly one. With no runner of its own,
  \<open>Reconcile\<close> deletes nothing and creates at most one runner, exactly one when the
  creation succeeds. With exactly one runner it creates none and deletes none. With
  more than one it creates none and deletes fewer runners than there are, so at least
  one stays; and when no probe fails with an error of the listing and no \<open>Delete\<close>
  call fails, it deletes the first \<open>available - 1\<close> of the not-busy candidates (all of
  them when there are fewer), so that exactly one runner stays when all the others are
  candidates.
\<close>

theorem nil_replicas_desired_one:
  "Replicas rs = None \<longrightarrow>
     desired rs = 1 \<and>
     (Get e = Inr rs \<and> DeletionTimestamp rs = None \<and> ListItems e = Inr allRunners \<longrightarrow>
        (myRunners rs allRunners = [] \<longrightarrow>
           deleted (Reconcile e) = [] \<and> created_count (Reconcile e) \<le> 1 \<and>
           (Create e 0 = None \<longrightarrow> created_count (Reconcile e) = 1)) \<and>
        (length (myRunners rs allRunners) = 1 \<longrightarrow>
           created_count (Reconcile e) = 0 \<and> deleted (Reconcile e) = []) \<and>
        (1 < length (myRunners rs allRunners) \<longrightarrow>
           created_count (Reconcile e) = 0 \<and>
           length (deleted (Reconcile e)) \<le> length (myRunners rs allRunners) - 1 \<and>
           (int (length (myRunners rs allRunners)) \<le> 2 ^ 63 \<and>
            (\<forall>r \<in> set (myRunners rs allRunners). \<forall>x.
               snd (IsRunnerBusy (ListRunners e r) (RunnerName r)) \<noteq> Some (ListError x)) \<and>
            (\<forall>r \<in> set (myRunners rs allRunners). IgnoreNotFound (Delete e r) = None) \<longrightarrow>
              deleted (Reconcile e) =
                take (length (myRunners rs allRunners) - 1)
                  (filter (not_busy_candidate e) (myRunners rs allRunners)))))"
proof (intro impI conjI)
  assume nil: "Replicas rs = None"
  then show "desired rs = 1" by (rule desired_nil)
  {
    assume h: "Get e = Inr rs \<and> DeletionTimestamp rs = None \<and> ListItems e = Inr allRunners"
    then have R: "Reconcile e = reconcile_runners e rs allRunners"
      by (simp add: Reconcile_def)
    {
      assume z: "myRunners rs allRunners = []"
      show "deleted (Reconcile e) = []"
        unfolding R using nil z by (rule nil_replicas_scale_up)
      show "created_count (Reconcile e) \<le> 1"
        unfolding R using nil z by (rule nil_replicas_scale_up)
      show "created_count (Reconcile e) = 1" if "Create e 0 = None"
        unfolding R using nil z that by (rule nil_replicas_scale_up)
    }
    {
      assume z: "length (myRunners rs allRunners) = 1"
      show "created_count (Reconcile e) = 0" and "deleted (Reconcile e) = []"
        unfolding R using nil_replicas_one_runner [OF nil z] by simp_all
    }
    {
      assume z: "1 < length (myRunners rs allRunners)"
      show "created_count (Reconcile e) = 0"
        unfolding R using nil z by (rule nil_replicas_scale_down)
      show "length (deleted (Reconcile e)) \<le> length (myRunners rs allRunners) - 1"
        unfolding R using nil z by (rule nil_replicas_scale_down)
      show "deleted (Reconcile e) =
                take (length (myRunners rs allRunners) - 1)
                  (filter (not_busy_candidate e) (myRunners rs allRunners))"
        if "int (length (myRunners rs allRunners)) \<le> 2 ^ 63 \<and>
            (\<forall>r \<in> set (myRunners rs allRunners). \<forall>x.
               snd (IsRunnerBusy (ListRunners e r) (RunnerName r)) \<noteq> Some (ListError x)) \<and>
            (\<forall>r \<in> set (myRunners rs allRunners). IgnoreNotFound (Delete e r) = None)"
        unfolding R using nil_replicas_scale_down(3) [OF nil z] that by blast
    }
  }
qed

theorem nil_replicas_desired_one_witness:
  "desired \<lparr>UID = ''rs'', Replicas = None, DeletionTimestamp = None,
                    AvailableReplicas = 0, ReadyReplicas = 0\<rparr> = 1 \<and>
   created_count (Reconcile
        \<lparr>Get = Inr \<lparr>UID = ''rs'', Replicas = None, DeletionTimestamp = None,
                    AvailableReplicas = 0, ReadyReplicas = 0\<rparr>,
         ListItems = Inr [],
         ListRunners = (\<lambda>r. Inr [\<lparr>Name = Some (RunnerName r), Status = Some ''online'',
                                   Busy = Some False\<rparr>]),
         Now = (\<lambda>r. 0),
         Delete = (\<lambda>r. None),
         Create = (\<lambda>i. None),
         StatusUpdate = (\<lambda>counts. None),
         retryDelayOnGitHubAPIRateLimitError = 30000000000\<rparr>) = 1 \<and>
   deleted (Reconcile
        \<lparr>Get = Inr \<lparr>UID = ''rs'', Replicas = None, DeletionTimestamp = None,
                    AvailableReplicas = 0, ReadyReplicas = 0\<rparr>,
         ListItems = Inr [],
         ListRunners = (\<lambda>r. Inr [\<lparr>Name = Some (RunnerName r), Status = Some ''online'',
                                   Busy = Some False\<rparr>]),
         Now = (\<lambda>r. 0),
         Delete = (\<lambda>r. None),
         Create = (\<lambda>i. None),
         StatusUpdate = (\<lambda>counts. None),
         retryDelayOnGitHubAPIRateLimitError = 30000000000\<rparr>) = [] \<and>
   created_count (Reconcile
        \<lparr>Get = Inr \<lparr>UID = ''rs'', Replicas = None, DeletionTimestamp = None,
                    AvailableReplicas = 0, ReadyReplicas = 0\<rparr>,
         ListItems = Inr [\<lparr>RunnerName = ''r1'', ControllerUID = Some ''rs'', Phase = ''Running'', CreationTimestamp = 0\<rparr>,
                          \<lparr>RunnerName = ''r2'', ControllerUID = Some ''rs'', Phase = ''Running'', CreationTimestamp = 0\<rparr>,
                          \<lparr>RunnerName = ''r3'', ControllerUID = Some ''rs'', Phase = ''Running'', CreationTimestamp = 0\<rparr>],
         ListRunners = (\<lambda>r. Inr [\<lparr>Name = Some (RunnerName r), Status = Some ''online'',
                                   Busy = Some False\<rparr>]),
         Now = (\<lambda>r. 0),
         Delete = (\<lambda>r. None),
         Create = (\<lambda>i. None),
         StatusUpdate = (\<lambda>counts. None),
         retryDelayOnGitHubAPIRateLimitError = 30000000000\<rparr>) = 0 \<and>
   deleted (Reconcile
        \<lparr>Get = Inr \<lparr>UID = ''rs'', Replicas = None, DeletionTimestamp = None,
                    AvailableReplicas = 0, ReadyReplicas = 0\<rparr>,
         ListItems = Inr [\<lparr>RunnerName = ''r1'', ControllerUID = Some ''rs'', Phase = ''Running'', CreationTimestamp = 0\<rparr>,
                          \<lparr>RunnerName = ''r2'', ControllerUID = Some ''rs'', Phase = ''Running'', CreationTimestamp = 0\<rparr>,
                          \<lparr>RunnerName = ''r3'', ControllerUID = Some ''rs'', Phase = ''Running'', CreationTimestamp = 0\<rparr>],
         ListRunners = (\<lambda>r. Inr [\<lparr>Name = Some (RunnerName r), Status = Some ''online'',
                                   Busy = Some False\<rparr>]),
         Now = (\<lambda>r. 0),
         Delete = (\<lambda>r. None),
         Create = (\<lambda>i. None),
         StatusUpdate = (\<lambda>counts. None),
         retryDelayOnGitHubAPIRateLimitError = 30000000000\<rparr>)
     = [\<lparr>RunnerName = ''r1'', ControllerUID = Some ''rs'', Phase = ''Running'', CreationTimestamp = 0\<rparr>,
      \<lparr>RunnerName = ''r2'', ControllerUID = Some ''rs'', Phase = ''Running'', CreationTimestamp = 0\<rparr>]"
proof -
  have c0: "desired \<lparr>UID = ''rs'', Replicas = None, DeletionTimestamp = None,
                    AvailableReplicas = 0, ReadyReplicas = 0\<rparr> = 1 \<and>
   created_count (Reconcile
        \<lparr>Get = Inr \<lparr>UID = ''rs'', Replicas = None, DeletionTimestamp = None,
                    AvailableReplicas = 0, ReadyReplicas = 0\<rparr>,
         ListItems = Inr [],
         ListRunners = (\<lambda>r. Inr [\<lparr>Name = Some (RunnerName r), Status = Some ''online'',
                                   Busy = Some False\<rparr>]),
         Now = (\<lambda>r. 0),
         Delete = (\<lambda>r. None),
         Create = (\<lambda>i. None),
         StatusUpdate = (\<lambda>counts. None),
         retryDelayOnGitHubAPIRateLimitError = 30000000000\<rparr>) = 1 \<and>
   deleted (Reconcile
        \<lparr>Get = Inr \<lparr>UID = ''rs'', Replicas = None, DeletionTimestamp = None,
                    AvailableReplicas = 0, ReadyReplicas = 0\<rparr>,
         ListItems = Inr [],
         ListRunners = (\<lambda>r. Inr [\<lparr>Name = Some (RunnerName r), Status = Some ''online'',
                                   Busy = Some False\<rparr>]),
         Now = (\<lambda>r. 0),
         Delete = (\<lambda>r. None),
         Create = (\<lambda>i. None),
         StatusUpdate = (\<lambda>counts. None),
         retryDelayOnGitHubAPIRateLimitError = 30000000000\<rparr>) = []"
    using nil_replicas_desired_one
      [where rs = "\<lparr>UID = ''rs'', Replicas = None, DeletionTimestamp = None,
                    AvailableReplicas = 0, ReadyReplicas = 0\<rparr>"
         and e = "\<lparr>Get = Inr \<lparr>UID = ''rs'', Replicas = None, DeletionTimestamp = None,
                    AvailableReplicas = 0, ReadyReplicas = 0\<rparr>,
         ListItems = Inr [],
         ListRunners = (\<lambda>r. Inr [\<lparr>Name = Some (RunnerName r), Status = Some ''online'',
                                   Busy = Some False\<rparr>]),
         Now = (\<lambda>r. 0),
         Delete = (\<lambda>r. None),
         Create = (\<lambda>i. None),
         StatusUpdate = (\<lambda>counts. None),
         retryDelayOnGitHubAPIRateLimitError = 30000000000\<rparr>"
         and allRunners = "[]"]
    by (simp add: myRunners_def)
  have c3: "created_count (Reconcile
        \<lparr>Get = Inr \<lparr>UID = ''rs'', Replicas = None, DeletionTimestamp = None,
                    AvailableReplicas = 0, ReadyReplicas = 0\<rparr>,
         ListItems = Inr [\<lparr>RunnerName = ''r1'', ControllerUID = Some ''rs'', Phase = ''Running'', CreationTimestamp = 0\<rparr>,
                          \<lparr>RunnerName = ''r2'', ControllerUID = Some ''rs'', Phase = ''Running'', CreationTimestamp = 0\<rparr>,
                          \<lparr>RunnerName = ''r3'', ControllerUID = Some ''rs'', Phase = ''Running'', CreationTimestamp = 0\<rparr>],
         ListRunners = (\<lambda>r. Inr [\<lparr>Name = Some (RunnerName r), Status = Some ''online'',
                                   Busy = Some False\<rparr>]),
         Now = (\<lambda>r. 0),
         Delete = (\<lambda>r. None),
         Create = (\<lambda>i. None),
         StatusUpdate = (\<lambda>counts. None),
         retryDelayOnGitHubAPIRateLimitError = 30000000000\<rparr>) = 0 \<and>
   deleted (Reconcile
        \<lparr>Get = Inr \<lparr>UID = ''rs'', Replicas = None, DeletionTimestamp = None,
                    AvailableReplicas = 0, ReadyReplicas = 0\<rparr>,
         ListItems = Inr [\<lparr>RunnerName = ''r1'', ControllerUID = Some ''rs'', Phase = ''Running'', CreationTimestamp = 0\<rparr>,
                          \<lparr>RunnerName = ''r2'', ControllerUID = Some ''rs'', Phase = ''Running'', CreationTimestamp = 0\<rparr>,
                          \<lparr>RunnerName = ''r3'', ControllerUID = Some ''rs'', Phase = ''Running'', CreationTimestamp = 0\<rparr>],
         ListRunners = (\<lambda>r. Inr [\<lparr>Name = Some (RunnerName r), Status = Some ''online'',
                                   Busy = Some False\<rparr>]),
         Now = (\<lambda>r. 0),
         Delete = (\<lambda>r. None),
         Create = (\<lambda>i. None),
         StatusUpdate = (\<lambda>counts. None),
         retryDelayOnGitHubAPIRateLimitError = 30000000000\<rparr>)
     = [\<lparr>RunnerName = ''r1'', ControllerUID = Some ''rs'', Phase = ''Running'', CreationTimestamp = 0\<rparr>,
      \<lparr>RunnerName = ''r2'', ControllerUID = Some ''rs'', Phase = ''Running'', CreationTimestamp = 0\<rparr>]"
    using nil_replicas_desired_one
      [where rs = "\<lparr>UID = ''rs'', Replicas = None, DeletionTimestamp = None,
                    AvailableReplicas = 0, ReadyReplicas = 0\<rparr>"
         and e = "\<lparr>Get = Inr \<lparr>UID = ''rs'', Replicas = None, DeletionTimestamp = None,
                    AvailableReplicas = 0, ReadyReplicas = 0\<rparr>,
         ListItems = Inr [\<lparr>RunnerName = ''r1'', ControllerUID = Some ''rs'', Phase = ''Running'', CreationTimestamp = 0\<rparr>,
                          \<lparr>RunnerName = ''r2'', ControllerUID = Some ''rs'', Phase = ''Running'', CreationTimestamp = 0\<rparr>,
                          \<lparr>RunnerName = ''r3'', ControllerUID = Some ''rs'', Phase = ''Running'', CreationTimestamp = 0\<rparr>],
         ListRunners = (\<lambda>r. Inr [\<lparr>Name = Some (RunnerName r), Status = Some ''online'',
                                   Busy = Some False\<rparr>]),
         Now = (\<lambda>r. 0),
         Delete = (\<lambda>r. None),
         Create = (\<lambda>i. None),
         StatusUpdate = (\<lambda>counts. None),
         retryDelayOnGitHubAPIRateLimitError = 30000000000\<rparr>"
         and allRunners = "[\<lparr>RunnerName = ''r1'', ControllerUID = Some ''rs'', Phase = ''Running'', CreationTimestamp = 0\<rparr>,
                          \<lparr>RunnerName = ''r2'', ControllerUID = Some ''rs'', Phase = ''Running'', CreationTimestamp = 0\<rparr>,
                          \<lparr>RunnerName = ''r3'', ControllerUID = Some ''rs'', Phase = ''Running'', CreationTimestamp = 0\<rparr>]"]
    by (simp add: myRunners_def IsControlledBy_def IsRunnerBusy_def GetName_def GetStatus_def
          GetBusy_def IgnoreNotFound_def not_busy_candidate_def)
  from c0 c3 show ?thesis by simp
qed

end
